theory Spec2Isabelle
  imports Complex_Main "HOL-Library.AList" "HOL-Library.Sublist" "HOL-Library.Multiset"
begin

text \<open>
  The structural cloner (\<open>clone-node\<close>) and the image embedder (\<open>embed-images\<close>) of
  html-to-image, as functions over an explicit document tree. Promises are results in an
  explicit state; what the browser and the other modules of the library do is a record of
  parameters. The theorems check ten claims of its specification against these functions.
\<close>

section \<open>The document model\<close>

text \<open>
  The interface an element implements, as far as \<open>isInstanceOfElement\<close> is asked about it
  in the two source files. Every \<open>HTML...\<close> interface is also an \<open>HTMLElement\<close>.
\<close>

datatype iface =
    HTMLCanvasElement
  | HTMLVideoElement
  | HTMLIFrameElement
  | HTMLTextAreaElement
  | HTMLInputElement
  | HTMLSelectElement
  | HTMLImageElement
  | HTMLOtherElement
  | SVGImageElement
  | SVGOtherElement
  | PlainElement

definition isHTMLElement :: "iface \<Rightarrow> bool" where
  "isHTMLElement k = (k \<noteq> SVGImageElement \<and> k \<noteq> SVGOtherElement \<and> k \<noteq> PlainElement)"

text \<open>The two callbacks that \<open>embedImageNode\<close> stores in event-handler slots.\<close>

datatype handler = ResolveHandler | RejectHandler

text \<open>
  An inline style declaration block: property name, value and priority, in order.
  The store takes any value; the validation a browser applies to a value is not part of
  the program.
\<close>

type_synonym css = "(string \<times> string \<times> string) list"

text \<open>
  The properties of an element that the program reads or writes and that hold no nodes.
  JavaScript numbers are taken as real numbers.
\<close>

record props =
  elValue :: string
  scrollTop :: real
  scrollLeft :: real
  canvasData :: string
  currentSrc :: string
  poster :: string
  src :: string
  srcset :: string
  loading :: string
  hasDecode :: bool
  decodeHandler :: "handler option"
  onload :: "handler option"
  onerror :: "handler option"
  hrefBaseVal :: string

text \<open>
  A node is an element or character data (text, comment). An element carries what a slot
  has assigned (if it has the method), the children of its shadow root (if it has one) and
  its frame: what reading \<open>iframe.contentDocument.body\<close> gives, which is that the access
  throws, that the document or its body is missing, or a body.
\<close>

datatype node =
    Element
      (iface: iface)
      (tagName: string)
      (attrs: "(string \<times> string) list")
      (style: "css option")
      (props: props)
      (childNodes: "node list")
      (shadowRoot: "node list option")
      (assignedNodes: "node list option")
      (contentDocument: frame)
  | CharacterData string
and frame =
    AccessThrows
  | NoBody
  | Body node

text \<open>Modelled from the spec: \<open>isSupportedElement\<close> of util is not among the sources;
  the spec has elements processed and every other node cloned verbatim.\<close>

fun isSupportedElement :: "node \<Rightarrow> bool" where
  "isSupportedElement (Element k t a st p cs sh asg fr) = True"
| "isSupportedElement (CharacterData d) = False"

text \<open>Modelled from the spec: \<open>isInstanceOfElement\<close> of util is not among the sources;
  the spec dispatches on the kind of an element, which is its interface here.\<close>

fun isInstanceOfElement :: "node \<Rightarrow> iface \<Rightarrow> bool" where
  "isInstanceOfElement (Element k t a st p cs sh asg fr) c = (k = c)"
| "isInstanceOfElement (CharacterData d) c = False"

fun isInstanceOfHTMLElement :: "node \<Rightarrow> bool" where
  "isInstanceOfHTMLElement (Element k t a st p cs sh asg fr) = isHTMLElement k"
| "isInstanceOfHTMLElement (CharacterData d) = False"

fun setProps :: "(props \<Rightarrow> props) \<Rightarrow> node \<Rightarrow> node" where
  "setProps f (Element k t a st p cs sh asg fr) = Element k t a st (f p) cs sh asg fr"
| "setProps f (CharacterData d) = CharacterData d"

fun setStyle :: "css option \<Rightarrow> node \<Rightarrow> node" where
  "setStyle st' (Element k t a st p cs sh asg fr) = Element k t a st' p cs sh asg fr"
| "setStyle st' (CharacterData d) = CharacterData d"

fun setChildNodes :: "node list \<Rightarrow> node \<Rightarrow> node" where
  "setChildNodes cs' (Element k t a st p cs sh asg fr) = Element k t a st p cs' sh asg fr"
| "setChildNodes cs' (CharacterData d) = CharacterData d"

fun setAttrs :: "(string \<times> string) list \<Rightarrow> node \<Rightarrow> node" where
  "setAttrs a' (Element k t a st p cs sh asg fr) = Element k t a' st p cs sh asg fr"
| "setAttrs a' (CharacterData d) = CharacterData d"

fun nodeProps :: "node \<Rightarrow> props option" where
  "nodeProps (Element k t a st p cs sh asg fr) = Some p"
| "nodeProps (CharacterData d) = None"

fun nodeStyle :: "node \<Rightarrow> css option" where
  "nodeStyle (Element k t a st p cs sh asg fr) = st"
| "nodeStyle (CharacterData d) = None"

fun nodeChildren :: "node \<Rightarrow> node list" where
  "nodeChildren (Element k t a st p cs sh asg fr) = cs"
| "nodeChildren (CharacterData d) = []"

fun nodeAttrs :: "node \<Rightarrow> (string \<times> string) list" where
  "nodeAttrs (Element k t a st p cs sh asg fr) = a"
| "nodeAttrs (CharacterData d) = []"

fun nodeTag :: "node \<Rightarrow> string" where
  "nodeTag (Element k t a st p cs sh asg fr) = t"
| "nodeTag (CharacterData d) = []"

fun nodeShadow :: "node \<Rightarrow> node list option" where
  "nodeShadow (Element k t a st p cs sh asg fr) = sh"
| "nodeShadow (CharacterData d) = None"

fun nodeAssigned :: "node \<Rightarrow> node list option" where
  "nodeAssigned (Element k t a st p cs sh asg fr) = asg"
| "nodeAssigned (CharacterData d) = None"

fun nodeFrame :: "node \<Rightarrow> frame" where
  "nodeFrame (Element k t a st p cs sh asg fr) = fr"
| "nodeFrame (CharacterData d) = NoBody"

text \<open>Reading a property of a node; the default stands for a node that has no such property.\<close>

definition getProp :: "(props \<Rightarrow> 'a) \<Rightarrow> 'a \<Rightarrow> node \<Rightarrow> 'a" where
  "getProp f dflt n = (case nodeProps n of None \<Rightarrow> dflt | Some p \<Rightarrow> f p)"

definition appendChild :: "node \<Rightarrow> node \<Rightarrow> node" where
  "appendChild c n = setChildNodes (nodeChildren n @ [c]) n"

text \<open>
  \<open>node.cloneNode(false)\<close>: the element with its attributes (the inline style and the
  properties that reflect attributes among them) and without children, shadow tree or
  nested document. The properties that a browser does not copy (scroll offsets, bitmap,
  form value) are never read from a clone by the program.
\<close>

fun shallowClone :: "node \<Rightarrow> node" where
  "shallowClone (Element k t a st p cs sh asg fr) =
     Element k t a st p [] None (map_option (\<lambda>ns. []) asg) NoBody"
| "shallowClone (CharacterData d) = CharacterData d"

subsection \<open>Attributes and style declarations\<close>

definition getAttribute :: "node \<Rightarrow> string \<Rightarrow> string option" where
  "getAttribute n name = map_of (nodeAttrs n) name"

definition setAttribute :: "string \<Rightarrow> string \<Rightarrow> node \<Rightarrow> node" where
  "setAttribute name v n = setAttrs (AList.update name v (nodeAttrs n)) n"

definition getPropertyValue :: "css \<Rightarrow> string \<Rightarrow> string" where
  "getPropertyValue st name = (case map_of st name of None \<Rightarrow> [] | Some (v, pr) \<Rightarrow> v)"

definition getPropertyPriority :: "css \<Rightarrow> string \<Rightarrow> string" where
  "getPropertyPriority st name = (case map_of st name of None \<Rightarrow> [] | Some (v, pr) \<Rightarrow> pr)"

text \<open>\<open>setProperty\<close> with the empty string as value removes the declaration.\<close>

definition setProperty :: "css \<Rightarrow> string \<Rightarrow> string \<Rightarrow> string \<Rightarrow> css" where
  "setProperty st name v pr =
     (if v = [] then AList.delete name st else AList.update name (v, pr) st)"

section \<open>Asynchronous results and the collaborators\<close>

datatype error =
    ResourceFetchError
  | ImageLoadError
  | SyntaxError
  | TypeError
  | SecurityError
  | CollaboratorError

text \<open>
  A call of a collaborator, as the program makes it. The state keeps the calls in order
  and a clock that each call advances by its latency.
\<close>

datatype call =
    FilterCall node
  | ResourceToDataURL string string
  | EmbedResources string
  | CreateImage string
  | AwaitLoad node

record state =
  clock :: nat
  calls :: "call list"

text \<open>
  The result of an asynchronous function: its promise is fulfilled with a value in a new
  state, is rejected, or gives nothing (an event that never fires, or a recursion that
  the given fuel does not finish).
\<close>

datatype 'a outcome =
    Pending
  | Rejected error state
  | Resolved 'a state

fun thenP :: "'a outcome \<Rightarrow> ('a \<Rightarrow> state \<Rightarrow> 'b outcome) \<Rightarrow> 'b outcome" where
  "thenP Pending f = Pending"
| "thenP (Rejected e s) f = Rejected e s"
| "thenP (Resolved x s) f = f x s"

datatype loadEvent = LoadFires | ErrorFires | NothingFires

text \<open>
  The collaborators of the two files: functions of the repository that are not among
  the sources (util, dataurl, mimes, embed-resources, clone-pseudos) and what the browser
  decides. They are parameters of the model.
\<close>

text \<open>A two-dimensional \<open>DOMMatrix\<close>: the entries a, b, c, d, e and f.\<close>

record matrix =
  ma :: real
  mb :: real
  mc :: real
  md :: real
  me :: real
  mf :: real

text \<open>What \<open>window.getComputedStyle\<close> gives for an element.\<close>

record computed =
  cssText :: string
  transformOrigin :: string
  decls :: css

record env =
  latency :: "call \<Rightarrow> nat"
  isDataUrl :: "string \<Rightarrow> bool"
  getMimeType :: "string \<Rightarrow> string"
  resourceToDataURL :: "string \<Rightarrow> string \<Rightarrow> error + string"
  embedResources :: "string \<Rightarrow> error + string"
  loadOutcome :: "node \<Rightarrow> loadEvent"
  createImage :: "string \<Rightarrow> error + node"
  videoFrame :: "node \<Rightarrow> string"
  getComputedStyle :: "node \<Rightarrow> computed"
  parseCssText :: "string \<Rightarrow> css"
  getStyleProperties :: "node \<Rightarrow> string list"
  parseFloat :: "string \<Rightarrow> real option"
  numberToString :: "real \<Rightarrow> string"
  clonePseudoElements :: "node \<Rightarrow> node \<Rightarrow> node"
  parseInnerHTML :: "string \<Rightarrow> node list"
  parseMatrix :: "string \<Rightarrow> matrix option"
  matrixToString :: "matrix \<Rightarrow> string"
  querySelectorAll :: "node \<Rightarrow> string \<Rightarrow> node list"
  querySelector :: "node \<Rightarrow> string \<Rightarrow> error + node option"
  documentQuerySelector :: "string \<Rightarrow> error + node option"

text \<open>The options the two files read.\<close>

record options =
  filter_fn :: "(node \<Rightarrow> bool) option"
  patchScroll :: bool

definition invoke :: "env \<Rightarrow> call \<Rightarrow> state \<Rightarrow> state" where
  "invoke E c s = s\<lparr>clock := clock s + latency E c, calls := calls s @ [c]\<rparr>"

definition awaitResult :: "env \<Rightarrow> call \<Rightarrow> error + 'a \<Rightarrow> state \<Rightarrow> 'a outcome" where
  "awaitResult E c r s =
     (case r of Inl e \<Rightarrow> Rejected e (invoke E c s) | Inr x \<Rightarrow> Resolved x (invoke E c s))"

section \<open>embed-images.ts\<close>

text \<open>\<open>embedProp\<close> returns the node as it leaves it together with its boolean result.\<close>

definition embedProp :: "env \<Rightarrow> string \<Rightarrow> node \<Rightarrow> state \<Rightarrow> (node \<times> bool) outcome" where
  "embedProp E propName n s =
     (case nodeStyle n of
        None \<Rightarrow> Resolved (n, False) s
      | Some st \<Rightarrow>
          (let propValue = getPropertyValue st propName in
           if propValue \<noteq> [] then
             thenP (awaitResult E (EmbedResources propValue) (embedResources E propValue) s)
               (\<lambda>cssString s'.
                  Resolved
                    (setStyle
                       (Some (setProperty st propName cssString (getPropertyPriority st propName)))
                       n, True) s')
           else Resolved (n, False) s))"

definition embedBackground :: "env \<Rightarrow> node \<Rightarrow> state \<Rightarrow> node outcome" where
  "embedBackground E clonedNode s =
     thenP (embedProp E ''background'' clonedNode s)
       (\<lambda>(n1, b1) s1.
          thenP (if \<not> b1 then embedProp E ''background-image'' n1 s1 else Resolved (n1, b1) s1)
            (\<lambda>(n2, b2) s2.
               thenP (embedProp E ''mask'' n2 s2)
                 (\<lambda>(n3, b3) s3.
                    thenP (if \<not> b3 then embedProp E ''mask-image'' n3 s3 else Resolved (n3, b3) s3)
                      (\<lambda>(n4, b4) s4. Resolved n4 s4))))"

definition imageUrl :: "node \<Rightarrow> string" where
  "imageUrl n =
     (case nodeProps n of
        None \<Rightarrow> []
      | Some p \<Rightarrow> if isInstanceOfElement n HTMLImageElement then src p else hrefBaseVal p)"

definition needsEmbedding :: "env \<Rightarrow> node \<Rightarrow> bool" where
  "needsEmbedding E n =
     (case nodeProps n of
        None \<Rightarrow> False
      | Some p \<Rightarrow>
          \<not> (\<not> (isInstanceOfElement n HTMLImageElement \<and> \<not> isDataUrl E (src p)) \<and>
             \<not> (isInstanceOfElement n SVGImageElement \<and> \<not> isDataUrl E (hrefBaseVal p))))"

text \<open>The body of the promise executor of \<open>embedImageNode\<close>.\<close>

definition armImage :: "bool \<Rightarrow> string \<Rightarrow> props \<Rightarrow> props" where
  "armImage isHTMLImage dataURL p =
     (let p1 = p\<lparr>onload := Some ResolveHandler, onerror := Some RejectHandler\<rparr>;
          p2 = (if hasDecode p1 then p1\<lparr>decodeHandler := Some ResolveHandler\<rparr> else p1);
          p3 = (if loading p2 = ''lazy'' then p2\<lparr>loading := ''eager''\<rparr> else p2)
      in if isHTMLImage then p3\<lparr>srcset := [], src := dataURL\<rparr>
         else p3\<lparr>hrefBaseVal := dataURL\<rparr>)"

definition embedImageNode :: "env \<Rightarrow> node \<Rightarrow> state \<Rightarrow> node outcome" where
  "embedImageNode E clonedNode s =
     (if \<not> needsEmbedding E clonedNode then Resolved clonedNode s
      else
        (let url = imageUrl clonedNode;
             mime = getMimeType E url
         in thenP (awaitResult E (ResourceToDataURL url mime) (resourceToDataURL E url mime) s)
              (\<lambda>dataURL s1.
                 (let n1 = setProps (armImage (isInstanceOfElement clonedNode HTMLImageElement) dataURL)
                             clonedNode
                  in case loadOutcome E n1 of
                       LoadFires \<Rightarrow> Resolved n1 (invoke E (AwaitLoad n1) s1)
                     | ErrorFires \<Rightarrow> Rejected ImageLoadError (invoke E (AwaitLoad n1) s1)
                     | NothingFires \<Rightarrow> Pending))))"

section \<open>clone-node\<close>

text \<open>The recursive call of \<open>cloneNode\<close>, as the functions below receive it.\<close>

type_synonym cloner = "node \<Rightarrow> bool \<Rightarrow> state \<Rightarrow> node option outcome"

definition cloneCanvasElement :: "env \<Rightarrow> node \<Rightarrow> state \<Rightarrow> node outcome" where
  "cloneCanvasElement E canvas s =
     (let dataURL = getProp canvasData [] canvas in
      if dataURL = ''data:,'' then Resolved (shallowClone canvas) s
      else awaitResult E (CreateImage dataURL) (createImage E dataURL) s)"

definition cloneVideoElement :: "env \<Rightarrow> node \<Rightarrow> state \<Rightarrow> node outcome" where
  "cloneVideoElement E video s =
     (if getProp currentSrc [] video \<noteq> [] then
        (let dataURL = videoFrame E video in
         awaitResult E (CreateImage dataURL) (createImage E dataURL) s)
      else
        (let poster' = getProp poster [] video;
             contentType = getMimeType E poster'
         in thenP (awaitResult E (ResourceToDataURL poster' contentType)
                     (resourceToDataURL E poster' contentType) s)
              (\<lambda>dataURL s1. awaitResult E (CreateImage dataURL) (createImage E dataURL) s1)))"

text \<open>
  The \<open>try\<close> block holds the read of the nested body and the awaited recursive call;
  the \<open>catch\<close> swallows what either throws.
\<close>

definition cloneIFrameElement :: "cloner \<Rightarrow> node \<Rightarrow> state \<Rightarrow> node option outcome" where
  "cloneIFrameElement rec iframe' s =
     (case nodeFrame iframe' of
        Body b \<Rightarrow>
          (case rec b True s of
             Resolved r s1 \<Rightarrow> Resolved r s1
           | Rejected e s1 \<Rightarrow> Resolved (Some (shallowClone iframe')) s1
           | Pending \<Rightarrow> Pending)
      | AccessThrows \<Rightarrow> Resolved (Some (shallowClone iframe')) s
      | NoBody \<Rightarrow> Resolved (Some (shallowClone iframe')) s)"

definition cloneSingleElement :: "cloner \<Rightarrow> env \<Rightarrow> node \<Rightarrow> state \<Rightarrow> node option outcome" where
  "cloneSingleElement rec E n s =
     (if isInstanceOfElement n HTMLCanvasElement then
        thenP (cloneCanvasElement E n s) (\<lambda>c s1. Resolved (Some c) s1)
      else if isInstanceOfElement n HTMLVideoElement then
        thenP (cloneVideoElement E n s) (\<lambda>c s1. Resolved (Some c) s1)
      else if isInstanceOfElement n HTMLIFrameElement then cloneIFrameElement rec n s
      else Resolved (Some (shallowClone n)) s)"

definition upperChar :: "char \<Rightarrow> char" where
  "upperChar ch =
     (let k = (of_char ch :: nat) in if 97 \<le> k \<and> k \<le> 122 then char_of (k - 32) else ch)"

definition toUpperCase :: "string \<Rightarrow> string" where
  "toUpperCase str = map upperChar str"

definition isSlotElement :: "node \<Rightarrow> bool" where
  "isSlotElement n = (toUpperCase (nodeTag n) = ''SLOT'')"

text \<open>
  The child list of \<open>cloneChildren\<close>. The read of the nested body of an iframe is not
  inside a \<open>try\<close> here.
\<close>

definition resolveChildren :: "node \<Rightarrow> error + node list" where
  "resolveChildren nativeNode =
     (let own = (case nodeShadow nativeNode of None \<Rightarrow> nodeChildren nativeNode | Some cs \<Rightarrow> cs) in
      case (if isSlotElement nativeNode then nodeAssigned nativeNode else None) of
        Some ns \<Rightarrow> Inr ns
      | None \<Rightarrow>
          if isInstanceOfElement nativeNode HTMLIFrameElement then
            (case nodeFrame nativeNode of
               AccessThrows \<Rightarrow> Inl SecurityError
             | Body b \<Rightarrow> Inr (nodeChildren b)
             | NoBody \<Rightarrow> Inr own)
          else Inr own)"

text \<open>The \<open>reduce\<close> over the children: one promise chained after the other.\<close>

fun cloneEach :: "cloner \<Rightarrow> node list \<Rightarrow> node \<Rightarrow> state \<Rightarrow> node outcome" where
  "cloneEach rec [] clonedNode s = Resolved clonedNode s"
| "cloneEach rec (child # rest) clonedNode s =
     thenP (rec child False s)
       (\<lambda>clonedChild s1.
          cloneEach rec rest
            (case clonedChild of None \<Rightarrow> clonedNode | Some c \<Rightarrow> appendChild c clonedNode) s1)"

definition cloneChildren :: "cloner \<Rightarrow> node \<Rightarrow> node \<Rightarrow> state \<Rightarrow> node outcome" where
  "cloneChildren rec nativeNode clonedNode s =
     (case resolveChildren nativeNode of
        Inl e \<Rightarrow> Rejected e s
      | Inr children \<Rightarrow>
          if children = [] \<or> isInstanceOfElement nativeNode HTMLVideoElement
          then Resolved clonedNode s
          else cloneEach rec children clonedNode s)"

text \<open>
  \<open>Math.floor(parseFloat(...)) - 0.1\<close> inside a template string. \<open>parseFloat\<close> and the
  conversion of a number to a string are the runtime's. No result of \<open>parseFloat\<close> stands
  for \<open>NaN\<close>, which the arithmetic keeps; infinite values are not modelled.
\<close>

definition reducedFont :: "env \<Rightarrow> string \<Rightarrow> string" where
  "reducedFont E str =
     (case parseFloat E str of
        None \<Rightarrow> ''NaN''
      | Some x \<Rightarrow> numberToString E (of_int \<lfloor>x\<rfloor> - 1 / 10))"

definition copyProperty :: "env \<Rightarrow> node \<Rightarrow> node \<Rightarrow> computed \<Rightarrow> css \<Rightarrow> string \<Rightarrow> css" where
  "copyProperty E nativeNode clonedNode sourceStyle targetStyle name =
     (let v0 = getPropertyValue (decls sourceStyle) name;
          v1 = (if name = ''font-size'' \<and> suffix ''px'' v0
                then reducedFont E (take (length v0 - 2) v0) @ ''px'' else v0);
          v2 = (if isInstanceOfElement nativeNode HTMLIFrameElement \<and> name = ''display'' \<and>
                   v1 = ''inline''
                then ''block'' else v1);
          v3 = (case (if name = ''d'' then getAttribute clonedNode ''d'' else None) of
                  None \<Rightarrow> v2
                | Some dv \<Rightarrow> if dv \<noteq> [] then ''path('' @ dv @ '')'' else v2)
      in setProperty targetStyle name v3 (getPropertyPriority (decls sourceStyle) name))"

definition cloneCSSStyle :: "env \<Rightarrow> node \<Rightarrow> node \<Rightarrow> node" where
  "cloneCSSStyle E nativeNode clonedNode =
     (case nodeStyle clonedNode of
        None \<Rightarrow> clonedNode
      | Some targetStyle \<Rightarrow>
          (let sourceStyle = getComputedStyle E nativeNode in
           if cssText sourceStyle \<noteq> [] then
             setStyle
               (Some (setProperty (parseCssText E (cssText sourceStyle)) ''transform-origin''
                        (transformOrigin sourceStyle) []))
               clonedNode
           else
             setStyle
               (Some (foldl (copyProperty E nativeNode clonedNode sourceStyle) targetStyle
                        (getStyleProperties E nativeNode)))
               clonedNode))"

definition cloneInputValue :: "env \<Rightarrow> node \<Rightarrow> node \<Rightarrow> node" where
  "cloneInputValue E nativeNode clonedNode =
     (let c1 = (if isInstanceOfElement nativeNode HTMLTextAreaElement
                then setChildNodes (parseInnerHTML E (getProp elValue [] nativeNode)) clonedNode
                else clonedNode)
      in if isInstanceOfElement nativeNode HTMLInputElement
         then setAttribute ''value'' (getProp elValue [] nativeNode) c1
         else c1)"

text \<open>\<open>find\<close> over the element children, and the change made to the child it returns.\<close>

fun updateFirst :: "('a \<Rightarrow> bool) \<Rightarrow> ('a \<Rightarrow> 'a) \<Rightarrow> 'a list \<Rightarrow> 'a list" where
  "updateFirst P f [] = []"
| "updateFirst P f (x # xs) = (if P x then f x # xs else x # updateFirst P f xs)"

definition cloneSelectValue :: "node \<Rightarrow> node \<Rightarrow> node" where
  "cloneSelectValue nativeNode clonedNode =
     (if isInstanceOfElement nativeNode HTMLSelectElement then
        setChildNodes
          (updateFirst
             (\<lambda>child. isSupportedElement child \<and>
                getAttribute child ''value'' = Some (getProp elValue [] nativeNode))
             (setAttribute ''selected'' [])
             (nodeChildren clonedNode))
          clonedNode
      else clonedNode)"

text \<open>\<open>translateSelf(tx, ty)\<close> on the two-dimensional entries.\<close>

definition translateSelf :: "real \<Rightarrow> real \<Rightarrow> matrix \<Rightarrow> matrix" where
  "translateSelf tx ty m =
     m\<lparr>me := me m + tx * ma m + ty * mc m, mf := mf m + tx * mb m + ty * md m\<rparr>"

text \<open>
  The \<open>children\<close> collection of a node: the child elements of an element, and no such
  property on any other node.
\<close>

fun childrenCollection :: "node \<Rightarrow> node list option" where
  "childrenCollection (Element k t a st p cs sh asg fr) = Some (filter isSupportedElement cs)"
| "childrenCollection (CharacterData d) = None"

definition patchChild :: "env \<Rightarrow> node \<Rightarrow> node \<Rightarrow> error + node" where
  "patchChild E nativeNode child =
     (if childrenCollection child = None then Inr child
      else
        (case nodeStyle child of
           None \<Rightarrow> Inl TypeError
         | Some st \<Rightarrow>
             (case parseMatrix E (getPropertyValue st ''transform'') of
                None \<Rightarrow> Inl SyntaxError
              | Some m \<Rightarrow>
                  (let m1 = m\<lparr>ma := 1, mb := 0, mc := 0, md := 1\<rparr>;
                       m2 = translateSelf (- getProp scrollLeft 0 nativeNode)
                              (- getProp scrollTop 0 nativeNode) m1;
                       m3 = m2\<lparr>ma := ma m, mb := mb m, mc := mc m, md := md m\<rparr>
                   in Inr (setStyle (Some (setProperty st ''transform'' (matrixToString E m3) []))
                             child)))))"

text \<open>The loop runs over \<open>clonedNode.children\<close>: the child nodes that are elements.\<close>

fun patchChildren :: "env \<Rightarrow> node \<Rightarrow> node list \<Rightarrow> error + node list" where
  "patchChildren E nativeNode [] = Inr []"
| "patchChildren E nativeNode (c # cs) =
     (if \<not> isSupportedElement c then
        (case patchChildren E nativeNode cs of Inl e \<Rightarrow> Inl e | Inr cs' \<Rightarrow> Inr (c # cs'))
      else
        (case patchChild E nativeNode c of
           Inl e \<Rightarrow> Inl e
         | Inr c' \<Rightarrow>
             (case patchChildren E nativeNode cs of Inl e \<Rightarrow> Inl e | Inr cs' \<Rightarrow> Inr (c' # cs'))))"

definition cloneScrollPosition :: "env \<Rightarrow> node \<Rightarrow> node \<Rightarrow> error + node" where
  "cloneScrollPosition E nativeNode clonedNode =
     (if (getProp scrollTop 0 nativeNode = 0 \<and> getProp scrollLeft 0 nativeNode = 0) \<or>
         childrenCollection clonedNode = None
      then Inr clonedNode
      else
        (case patchChildren E nativeNode (nodeChildren clonedNode) of
           Inl e \<Rightarrow> Inl e
         | Inr cs \<Rightarrow> Inr (setChildNodes cs clonedNode)))"

definition decorate :: "env \<Rightarrow> options \<Rightarrow> node \<Rightarrow> node \<Rightarrow> error + node" where
  "decorate E opts nativeNode clonedNode =
     (let c0 = cloneCSSStyle E nativeNode clonedNode in
      if isInstanceOfHTMLElement nativeNode \<and> isInstanceOfHTMLElement c0 then
        (let c1 = cloneInputValue E nativeNode c0;
             c2 = cloneSelectValue nativeNode c1;
             c3 = clonePseudoElements E nativeNode c2
         in if patchScroll opts then cloneScrollPosition E nativeNode c3 else Inr c3)
      else Inr c0)"

subsection \<open>The table of symbol definitions\<close>

text \<open>
  \<open>processedDefs\<close> is a plain object: its own properties in the order of their creation,
  and behind them the properties every object inherits. A value is a cloned node or
  \<open>null\<close>.
\<close>

type_synonym defsTable = "(string \<times> node option) list"

definition objectPrototypeKeys :: "string list" where
  "objectPrototypeKeys =
     [''constructor'', ''__defineGetter__'', ''__defineSetter__'', ''hasOwnProperty'',
      ''__lookupGetter__'', ''__lookupSetter__'', ''isPrototypeOf'', ''propertyIsEnumerable'',
      ''toString'', ''valueOf'', ''__proto__'', ''toLocaleString'']"

text \<open>Whether \<open>processedDefs[key]\<close> is truthy.\<close>

definition truthyProperty :: "defsTable \<Rightarrow> string \<Rightarrow> bool" where
  "truthyProperty tbl key =
     (case map_of tbl key of
        None \<Rightarrow> key \<in> set objectPrototypeKeys
      | Some v \<Rightarrow> v \<noteq> None)"

definition isDigit :: "char \<Rightarrow> bool" where
  "isDigit ch = (let k = (of_char ch :: nat) in 48 \<le> k \<and> k \<le> 57)"

definition decimal :: "string \<Rightarrow> nat" where
  "decimal str = foldl (\<lambda>acc ch. 10 * acc + (of_char ch - 48)) 0 str"

text \<open>A property name that is a canonical array index; such names are listed first.\<close>

definition isArrayIndex :: "string \<Rightarrow> bool" where
  "isArrayIndex str =
     (str \<noteq> [] \<and> list_all isDigit str \<and> (str = ''0'' \<or> hd str \<noteq> CHR ''0'') \<and>
      length str \<le> 10 \<and> decimal str < 4294967295)"

definition objectValues :: "defsTable \<Rightarrow> node option list" where
  "objectValues tbl =
     map snd
       (sort_key (\<lambda>kv. decimal (fst kv)) (filter (\<lambda>kv. isArrayIndex (fst kv)) tbl) @
        filter (\<lambda>kv. \<not> isArrayIndex (fst kv)) tbl)"

subsection \<open>ensureSVGSymbols and cloneNode\<close>

text \<open>The first loop of \<open>ensureSVGSymbols\<close>.\<close>

fun collectDefs ::
  "cloner \<Rightarrow> env \<Rightarrow> node \<Rightarrow> node list \<Rightarrow> defsTable \<Rightarrow> state \<Rightarrow> defsTable outcome" where
  "collectDefs rec E clone [] processedDefs s = Resolved processedDefs s"
| "collectDefs rec E clone (use # uses) processedDefs s =
     (case getAttribute use ''xlink:href'' of
        None \<Rightarrow> collectDefs rec E clone uses processedDefs s
      | Some ref \<Rightarrow>
          if ref = [] then collectDefs rec E clone uses processedDefs s
          else
            (case querySelector E clone ref of
               Inl e \<Rightarrow> Rejected e s
             | Inr exist \<Rightarrow>
                 (case documentQuerySelector E ref of
                    Inl e \<Rightarrow> Rejected e s
                  | Inr None \<Rightarrow> collectDefs rec E clone uses processedDefs s
                  | Inr (Some dfn) \<Rightarrow>
                      if exist = None \<and> \<not> truthyProperty processedDefs ref then
                        thenP (rec dfn True s)
                          (\<lambda>cl s1.
                             collectDefs rec E clone uses (AList.update ref cl processedDefs) s1)
                      else collectDefs rec E clone uses processedDefs s)))"

definition emptyProps :: props where
  "emptyProps =
     \<lparr>elValue = [], scrollTop = 0, scrollLeft = 0, canvasData = [], currentSrc = [],
      poster = [], src = [], srcset = [], loading = [], hasDecode = False,
      decodeHandler = None, onload = None, onerror = None, hrefBaseVal = []\<rparr>"

definition xhtmlNs :: string where
  "xhtmlNs = ''http://www.w3.org/1999/xhtml''"

definition defsElement :: "node list \<Rightarrow> node" where
  "defsElement nodes = Element HTMLOtherElement ''defs'' [] (Some []) emptyProps nodes None None NoBody"

text \<open>The style values are kept as the program writes them.\<close>

definition svgContainer :: "node list \<Rightarrow> node" where
  "svgContainer nodes =
     Element HTMLOtherElement ''svg'' [(''xmlns'', xhtmlNs)]
       (Some [(''position'', ''absolute'', []), (''width'', ''0'', []), (''height'', ''0'', []),
              (''overflow'', ''hidden'', []), (''display'', ''none'', [])])
       emptyProps [defsElement nodes] None None NoBody"

text \<open>\<open>defs.appendChild(nodes[i])\<close> throws on \<open>null\<close>.\<close>

fun nonNull :: "node option list \<Rightarrow> node list option" where
  "nonNull [] = Some []"
| "nonNull (None # rest) = None"
| "nonNull (Some n # rest) = map_option ((#) n) (nonNull rest)"

definition ensureSVGSymbols :: "cloner \<Rightarrow> env \<Rightarrow> node \<Rightarrow> state \<Rightarrow> node outcome" where
  "ensureSVGSymbols rec E clone s =
     (let uses = querySelectorAll E clone ''use'' in
      if uses = [] then Resolved clone s
      else
        thenP (collectDefs rec E clone uses [] s)
          (\<lambda>processedDefs s1.
             (let nodes = objectValues processedDefs in
              if nodes \<noteq> [] then
                (case nonNull nodes of
                   None \<Rightarrow> Rejected TypeError s1
                 | Some ns \<Rightarrow> Resolved (appendChild (svgContainer ns) clone) s1)
              else Resolved clone s1)))"

text \<open>
  One call of \<open>cloneNode\<close>, over the calls it makes of itself. The clone of a single
  element is never \<open>null\<close> when the recursive call is \<open>cloneNode\<close>; for a cloner that
  gives \<open>null\<close> for the body of an iframe, reading the style of the clone would throw.
\<close>

definition cloneStep :: "cloner \<Rightarrow> env \<Rightarrow> options \<Rightarrow> cloner" where
  "cloneStep rec E opts n isRoot s =
     (let (excluded, s0) =
            (if \<not> isRoot then
               (case filter_fn opts of
                  None \<Rightarrow> (False, s)
                | Some f \<Rightarrow> (\<not> f n, invoke E (FilterCall n) s))
             else (False, s))
      in if excluded then Resolved None s0
         else if \<not> isSupportedElement n then Resolved (Some (shallowClone n)) s0
         else
           thenP (cloneSingleElement rec E n s0)
             (\<lambda>c1 s1.
                case c1 of
                  None \<Rightarrow> Rejected TypeError s1
                | Some cl \<Rightarrow>
                    thenP (cloneChildren rec n cl s1)
                      (\<lambda>c2 s2.
                         case decorate E opts n c2 of
                           Inl e \<Rightarrow> Rejected e s2
                         | Inr c3 \<Rightarrow>
                             thenP (ensureSVGSymbols rec E c3 s2)
                               (\<lambda>c4 s4. Resolved (Some c4) s4))))"

text \<open>
  \<open>cloneNode\<close> with fuel: the recursion runs through the children, the nested document of
  an iframe and the definitions found in the document, and nothing bounds the last.
\<close>

primrec cloneNode :: "nat \<Rightarrow> env \<Rightarrow> options \<Rightarrow> cloner" where
  "cloneNode 0 E opts = (\<lambda>n isRoot s. Pending)"
| "cloneNode (Suc fuel) E opts = cloneStep (cloneNode fuel E opts) E opts"

section \<open>Statements in the words of the specification\<close>

text \<open>The property the Style Embedder rewrites of a pair: the shorthand if it has a value,
  else the longhand if that has one.\<close>

definition firstPresent :: "css \<Rightarrow> string \<Rightarrow> string \<Rightarrow> string list" where
  "firstPresent st shorthand longhand =
     (if getPropertyValue st shorthand \<noteq> [] then [shorthand]
      else if getPropertyValue st longhand \<noteq> [] then [longhand]
      else [])"

text \<open>The value of a property was passed through the rewriter and written back under the
  priority it had.\<close>

definition rewritten :: "env \<Rightarrow> css \<Rightarrow> css \<Rightarrow> string \<Rightarrow> bool" where
  "rewritten E st st' name =
     (case embedResources E (getPropertyValue st name) of
        Inl e \<Rightarrow> False
      | Inr css \<Rightarrow>
          getPropertyValue st' name = css \<and>
          (css \<noteq> [] \<longrightarrow> getPropertyPriority st' name = getPropertyPriority st name))"

text \<open>The state in which an asynchronous function has settled, if it has.\<close>

fun outcomeState :: "'a outcome \<Rightarrow> state option" where
  "outcomeState Pending = None"
| "outcomeState (Rejected e s) = Some s"
| "outcomeState (Resolved x s) = Some s"

text \<open>The place of the first element of a list that has a property.\<close>

definition firstMatch :: "('a \<Rightarrow> bool) \<Rightarrow> 'a list \<Rightarrow> nat \<Rightarrow> bool" where
  "firstMatch P xs i = (i < length xs \<and> P (xs ! i) \<and> (\<forall>j<i. \<not> P (xs ! j)))"

text \<open>A child element whose \<open>value\<close> attribute is the given value.\<close>

definition optionMatches :: "string \<Rightarrow> node \<Rightarrow> bool" where
  "optionMatches v child = (isSupportedElement child \<and> getAttribute child ''value'' = Some v)"

text \<open>
  One entry for each child the fold has cloned: the child, the state in which its clone
  started, what the clone gave, and the state in which it completed.
\<close>

type_synonym childRun = "node \<times> state \<times> node option \<times> state"

text \<open>
  A strictly sequential schedule from one state to another: each clone is a completed call
  of the cloner on its child, the first starts in the initial state, and each later one
  starts in the very state (and so at the very clock value) in which the one before it
  completed.
\<close>

fun sequentialRun :: "cloner \<Rightarrow> state \<Rightarrow> childRun list \<Rightarrow> state \<Rightarrow> bool" where
  "sequentialRun rec s [] s' = (s' = s)"
| "sequentialRun rec s ((child, started, res, completed) # runs) s' =
     (started = s \<and> rec child False started = Resolved res completed \<and>
      sequentialRun rec completed runs s')"

text \<open>The clones that are not \<open>null\<close>, in the order of the schedule.\<close>

fun appended :: "childRun list \<Rightarrow> node list" where
  "appended [] = []"
| "appended ((child, started, None, completed) # runs) = appended runs"
| "appended ((child, started, Some c, completed) # runs) = c # appended runs"

text \<open>
  A \<open>use\<close> element names, through \<open>xlink:href\<close>, a definition that the document has and
  the clone lacks.
\<close>

definition namesMissingDefinition :: "env \<Rightarrow> node \<Rightarrow> node \<Rightarrow> string \<Rightarrow> bool" where
  "namesMissingDefinition E clone use ref =
     (getAttribute use ''xlink:href'' = Some ref \<and> ref \<noteq> [] \<and>
      querySelector E clone ref = Inr None \<and>
      (case documentQuerySelector E ref of Inr (Some dfn) \<Rightarrow> True | _ \<Rightarrow> False))"

text \<open>
  A \<open>use\<close> element for which both lookups return and that names, through \<open>xlink:href\<close>,
  no definition that the document has and the clone lacks.
\<close>

definition namesNothingMissing :: "env \<Rightarrow> node \<Rightarrow> node \<Rightarrow> bool" where
  "namesNothingMissing E clone use =
     (case getAttribute use ''xlink:href'' of
        None \<Rightarrow> True
      | Some ref \<Rightarrow>
          ref = [] \<or>
          (case querySelector E clone ref of
             Inl e \<Rightarrow> False
           | Inr exist \<Rightarrow>
               (case documentQuerySelector E ref of
                  Inl e \<Rightarrow> False
                | Inr dfn \<Rightarrow> exist \<noteq> None \<or> dfn = None)))"

text \<open>
  One entry for each definition the loop has cloned: the reference, the clone, and the
  states in which the clone started and completed.
\<close>

type_synonym definitionRun = "string \<times> node \<times> state \<times> state"

text \<open>
  The clones of definitions made between two states: each is a completed call of the
  cloner, as a root, on the definition the document has for the reference, and each
  starts where the one before it completed.
\<close>

fun definitionRuns :: "cloner \<Rightarrow> env \<Rightarrow> state \<Rightarrow> definitionRun list \<Rightarrow> state \<Rightarrow> bool" where
  "definitionRuns rec E s [] s' = (s' = s)"
| "definitionRuns rec E s ((ref, cl, started, completed) # runs) s' =
     (started = s \<and>
      (case documentQuerySelector E ref of
         Inr (Some dfn) \<Rightarrow> rec dfn True started = Resolved (Some cl) completed
       | _ \<Rightarrow> False) \<and>
      definitionRuns rec E completed runs s')"

section \<open>Auxiliary definitions\<close>

text \<open>The two steps that \<open>embedBackground\<close> makes for one shorthand and its longhand.\<close>

definition embedPair :: "env \<Rightarrow> string \<Rightarrow> string \<Rightarrow> node \<Rightarrow> state \<Rightarrow> node outcome" where
  "embedPair E shorthand longhand n s =
     thenP (embedProp E shorthand n s)
       (\<lambda>(n1, b1) s1.
          thenP (if \<not> b1 then embedProp E longhand n1 s1 else Resolved (n1, b1) s1)
            (\<lambda>(n2, b2) s2. Resolved n2 s2))"

text \<open>The entry of the table that a cloned definition makes.\<close>

definition runEntry :: "definitionRun \<Rightarrow> string \<times> node option" where
  "runEntry r = (fst r, Some (fst (snd r)))"

section \<open>An environment and nodes for the examples\<close>

text \<open>The descendants of a node in document order.\<close>

fun descendants :: "node \<Rightarrow> node list" where
  "descendants (Element k t a st p cs sh asg fr) = concat (map (\<lambda>c. c # descendants c) cs)"
| "descendants (CharacterData d) = []"

text \<open>
  A selector engine that knows \<open>#id\<close> only. Any other string is a syntax error to it,
  as a path such as \<open>/img/sprite.svg#icon\<close> is to the selector engine of a browser.
\<close>

definition demoQuerySelector :: "node \<Rightarrow> string \<Rightarrow> error + node option" where
  "demoQuerySelector scope sel =
     (case sel of
        [] \<Rightarrow> Inl SyntaxError
      | ch # name \<Rightarrow>
          if ch = CHR ''#'' \<and> name \<noteq> []
          then Inr (find (\<lambda>n. getAttribute n ''id'' = Some name) (descendants scope))
          else Inl SyntaxError)"

definition emptyState :: state where
  "emptyState = \<lparr>clock = 0, calls = []\<rparr>"

text \<open>An element with tag, attributes, inline style and children, and nothing else.\<close>

definition plainElement :: "string \<Rightarrow> (string \<times> string) list \<Rightarrow> css \<Rightarrow> node list \<Rightarrow> node" where
  "plainElement t a st cs = Element HTMLOtherElement t a (Some st) emptyProps cs None None NoBody"

text \<open>What \<open>createImage\<close> gives in the examples.\<close>

definition demoImage :: "string \<Rightarrow> node" where
  "demoImage d =
     Element HTMLImageElement ''img'' [(''src'', d)] (Some [])
       (emptyProps\<lparr>src := d, hasDecode := True\<rparr>) [] None None NoBody"

text \<open>A rotation by a quarter turn with a translation.\<close>

definition quarterTurn :: "real \<Rightarrow> real \<Rightarrow> matrix" where
  "quarterTurn x y = \<lparr>ma = 0, mb = 1, mc = - 1, md = 0, me = x, mf = y\<rparr>"

text \<open>Parsing and serialising of the few transforms of the examples.\<close>

definition demoParseMatrix :: "string \<Rightarrow> matrix option" where
  "demoParseMatrix str =
     (if str = [] then Some \<lparr>ma = 1, mb = 0, mc = 0, md = 1, me = 0, mf = 0\<rparr>
      else if str = ''rotate(90deg)'' then Some (quarterTurn 0 0)
      else if str = ''matrix(0, 1, -1, 0, -10, -20)'' then Some (quarterTurn (- 10) (- 20))
      else if str = ''matrix(1, 0, 0, 1, -10, -20)''
        then Some \<lparr>ma = 1, mb = 0, mc = 0, md = 1, me = - 10, mf = - 20\<rparr>
      else None)"

definition demoMatrixToString :: "matrix \<Rightarrow> string" where
  "demoMatrixToString m =
     (if m = quarterTurn (- 10) (- 20) then ''matrix(0, 1, -1, 0, -10, -20)''
      else if m = \<lparr>ma = 1, mb = 0, mc = 0, md = 1, me = - 10, mf = - 20\<rparr>
        then ''matrix(1, 0, 0, 1, -10, -20)''
      else ''matrix(1, 0, 0, 1, 0, 0)'')"

text \<open>A \<open>parseFloat\<close> that knows digits with an optional fraction only.\<close>

definition demoParseFloat :: "string \<Rightarrow> real option" where
  "demoParseFloat str =
     (let whole = takeWhile isDigit str; rest = drop (length whole) str in
      if whole = [] then None
      else
        (case rest of
           [] \<Rightarrow> Some (real (decimal whole))
         | ch # digits \<Rightarrow>
             if ch = CHR ''.'' \<and> digits \<noteq> [] \<and> list_all isDigit digits
             then Some (real (decimal whole) + real (decimal digits) / 10 ^ length digits)
             else None))"

fun showNat :: "nat \<Rightarrow> string" where
  "showNat n =
     (if n < 10 then [''0123456789'' ! n] else showNat (n div 10) @ [''0123456789'' ! (n mod 10)])"

text \<open>The string of a number that is not negative and has at most one decimal.\<close>

definition demoNumberToString :: "real \<Rightarrow> string" where
  "demoNumberToString x =
     (let k = nat \<lfloor>x * 10\<rfloor> in
      showNat (k div 10) @ (if k mod 10 = 0 then [] else ''.'' @ showNat (k mod 10)))"

text \<open>The environment of the examples, over a document.\<close>

definition demoEnv :: "node \<Rightarrow> env" where
  "demoEnv document =
     \<lparr>latency = (\<lambda>c. case c of CreateImage d \<Rightarrow> length d | _ \<Rightarrow> 1),
      isDataUrl = prefix ''data:'',
      getMimeType = (\<lambda>u. ''image/png''),
      resourceToDataURL =
        (\<lambda>u m. if u = [] then Inl ResourceFetchError else Inr (''data:'' @ m @ '','' @ u)),
      embedResources = (\<lambda>v. Inr (''embedded '' @ v)),
      loadOutcome = (\<lambda>n. LoadFires),
      createImage = (\<lambda>d. Inr (demoImage d)),
      videoFrame = (\<lambda>n. ''data:image/png,frame''),
      getComputedStyle =
        (\<lambda>n. \<lparr>cssText = [], transformOrigin = [],
              decls = (case nodeStyle n of None \<Rightarrow> [] | Some st \<Rightarrow> st)\<rparr>),
      parseCssText = (\<lambda>t. []),
      getStyleProperties = (\<lambda>n. case nodeStyle n of None \<Rightarrow> [] | Some st \<Rightarrow> map fst st),
      parseFloat = demoParseFloat,
      numberToString = demoNumberToString,
      clonePseudoElements = (\<lambda>nativeNode clonedNode. clonedNode),
      parseInnerHTML = (\<lambda>v. [CharacterData v]),
      parseMatrix = demoParseMatrix,
      matrixToString = demoMatrixToString,
      querySelectorAll = (\<lambda>scope tag. filter (\<lambda>n. nodeTag n = tag) (descendants scope)),
      querySelector = demoQuerySelector,
      documentQuerySelector = demoQuerySelector document\<rparr>"

definition noOptions :: options where
  "noOptions = \<lparr>filter_fn = None, patchScroll = False\<rparr>"

definition styledDiv :: node where
  "styledDiv =
     plainElement ''div'' []
       [(''background'', ''url(a.png)'', ''important''),
        (''background-image'', ''url(b.png)'', []),
        (''mask-image'', ''url(m.png)'', [])] []"

definition styledDivEmbedded :: node where
  "styledDivEmbedded =
     plainElement ''div'' []
       [(''background'', ''embedded url(a.png)'', ''important''),
        (''background-image'', ''url(b.png)'', []),
        (''mask-image'', ''embedded url(m.png)'', [])] []"

definition remoteImage :: node where
  "remoteImage = demoImage ''a.png''"

definition inlineImage :: node where
  "inlineImage =
     setProps (armImage True ''data:image/png,a.png'') (demoImage ''a.png'')"

definition remoteSvgImage :: node where
  "remoteSvgImage =
     Element SVGImageElement ''image'' [(''href'', ''b.svg'')] (Some [])
       (emptyProps\<lparr>hrefBaseVal := ''b.svg'', srcset := ''kept''\<rparr>) [] None None NoBody"

definition selectB :: node where
  "selectB =
     Element HTMLSelectElement ''select'' [] (Some []) (emptyProps\<lparr>elValue := ''b''\<rparr>)
       [plainElement ''option'' [(''value'', ''a''), (''selected'', [])] [] [],
        plainElement ''option'' [(''value'', ''b'')] [] []]
       None None NoBody"

definition scrolledBox :: node where
  "scrolledBox =
     Element HTMLOtherElement ''div'' [] (Some [])
       (emptyProps\<lparr>scrollTop := 20, scrollLeft := 10\<rparr>) [] None None NoBody"

definition turnedChild :: node where
  "turnedChild = plainElement ''p'' [] [(''transform'', ''rotate(90deg)'', [])] [CharacterData ''x'']"

definition emptyChild :: node where
  "emptyChild = plainElement ''span'' [] [] []"

definition scrolledClone :: node where
  "scrolledClone = plainElement ''div'' [] [] [turnedChild, CharacterData ''t'', emptyChild]"

definition scrolledPatched :: node where
  "scrolledPatched =
     plainElement ''div'' [] []
       [plainElement ''p'' [] [(''transform'', ''matrix(0, 1, -1, 0, -10, -20)'', [])]
          [CharacterData ''x''],
        CharacterData ''t'',
        plainElement ''span'' [] [(''transform'', ''matrix(1, 0, 0, 1, -10, -20)'', [])] []]"

definition blockedFrame :: node where
  "blockedFrame =
     Element HTMLIFrameElement ''iframe'' [(''src'', ''https://other.example/'')] (Some [])
       emptyProps [CharacterData ''fallback''] None None AccessThrows"

definition openFrame :: node where
  "openFrame =
     Element HTMLIFrameElement ''iframe'' [(''src'', ''inner.html'')] (Some [])
       emptyProps [] None None (Body (plainElement ''body'' [(''id'', ''inner'')] [] []))"

definition slowCanvas :: node where
  "slowCanvas =
     Element HTMLCanvasElement ''canvas'' [(''id'', ''A'')] (Some [])
       (emptyProps\<lparr>canvasData := ''data:image/png,AAAAAAAAAAAAAAAA''\<rparr>) [] None None NoBody"

definition midCanvas :: node where
  "midCanvas =
     Element HTMLCanvasElement ''canvas'' [(''id'', ''B'')] (Some [])
       (emptyProps\<lparr>canvasData := ''data:image/png,BBBB''\<rparr>) [] None None NoBody"

definition fastCanvas :: node where
  "fastCanvas =
     Element HTMLCanvasElement ''canvas'' [(''id'', ''C'')] (Some [])
       (emptyProps\<lparr>canvasData := ''data:image/png,C''\<rparr>) [] None None NoBody"

definition gallery :: node where
  "gallery = plainElement ''div'' [] [] [slowCanvas, midCanvas, fastCanvas]"

definition galleryClone :: node where
  "galleryClone =
     plainElement ''div'' [] []
       [demoImage ''data:image/png,AAAAAAAAAAAAAAAA'', demoImage ''data:image/png,BBBB'',
        demoImage ''data:image/png,C'']"

definition hideSpans :: options where
  "hideSpans = \<lparr>filter_fn = Some (\<lambda>n. nodeTag n \<noteq> ''span''), patchScroll = False\<rparr>"

definition spanBox :: node where
  "spanBox =
     plainElement ''span'' []  []
       [plainElement ''span'' [] [] [plainElement ''b'' [] [] []], plainElement ''i'' [] [] []]"

definition italic :: node where
  "italic = plainElement ''i'' [] [] []"

definition innerSpan :: node where
  "innerSpan = plainElement ''span'' [] [] [plainElement ''b'' [] [] []]"

definition iconSymbol :: node where
  "iconSymbol = Element SVGOtherElement ''symbol'' [(''id'', ''icon'')] (Some []) emptyProps [] None None NoBody"

definition iconDocument :: node where
  "iconDocument = plainElement ''html'' [] [] [plainElement ''body'' [] [] [iconSymbol]]"

definition useIcon :: node where
  "useIcon = Element SVGOtherElement ''use'' [(''xlink:href'', ''#icon'')] (Some []) emptyProps [] None None NoBody"

definition useIconModern :: node where
  "useIconModern = Element SVGOtherElement ''use'' [(''href'', ''#icon'')] (Some []) emptyProps [] None None NoBody"

definition twoUses :: node where
  "twoUses = plainElement ''div'' [] [] [useIcon, useIcon]"

definition modernUses :: node where
  "modernUses = plainElement ''div'' [] [] [useIconModern]"

definition sizedSpan :: node where
  "sizedSpan = plainElement ''span'' [] [(''font-size'', ''16.5px'', [])] []"

definition useSprite :: node where
  "useSprite =
     Element SVGOtherElement ''use'' [(''xlink:href'', ''/img/sprite.svg#icon'')] (Some [])
       emptyProps [] None None NoBody"

definition spriteUses :: node where
  "spriteUses = plainElement ''div'' [] [] [useSprite]"
section \<open>Style declarations\<close>

lemma map_of_setProperty_other:
  "name \<noteq> other \<Longrightarrow> map_of (setProperty st name v pr) other = map_of st other"
  by (simp add: setProperty_def update_conv' delete_conv')

lemma getPropertyValue_setProperty_same:
  "getPropertyValue (setProperty st name v pr) name = v"
  by (simp add: setProperty_def getPropertyValue_def update_conv' delete_conv')

lemma getPropertyPriority_setProperty_same:
  "v \<noteq> [] \<Longrightarrow> getPropertyPriority (setProperty st name v pr) name = pr"
  by (simp add: setProperty_def getPropertyPriority_def update_conv')

lemma map_of_eq_value:
  "map_of st' name = map_of st name \<Longrightarrow> getPropertyValue st' name = getPropertyValue st name"
  by (simp add: getPropertyValue_def)

lemma map_of_eq_priority:
  "map_of st' name = map_of st name \<Longrightarrow>
   getPropertyPriority st' name = getPropertyPriority st name"
  by (simp add: getPropertyPriority_def)

lemma nodeStyle_setStyle:
  "nodeStyle n = Some st \<Longrightarrow> nodeStyle (setStyle x n) = x"
  by (cases n) simp_all

section \<open>The Style Embedder\<close>

lemma embedProp_eq:
  "nodeStyle n = Some st \<Longrightarrow>
   embedProp E name n s =
     (if getPropertyValue st name = [] then Resolved (n, False) s
      else case embedResources E (getPropertyValue st name) of
             Inl e \<Rightarrow> Rejected e (invoke E (EmbedResources (getPropertyValue st name)) s)
           | Inr css \<Rightarrow>
               Resolved (setStyle (Some (setProperty st name css (getPropertyPriority st name))) n, True)
                 (invoke E (EmbedResources (getPropertyValue st name)) s))"
  by (simp add: embedProp_def awaitResult_def Let_def split: sum.splits)

lemma embedBackground_pairs:
  "embedBackground E n s =
     thenP (embedPair E ''background'' ''background-image'' n s)
       (\<lambda>n1 s1. embedPair E ''mask'' ''mask-image'' n1 s1)"
proof (cases "embedProp E ''background'' n s")
  case Pending
  then show ?thesis by (simp add: embedBackground_def embedPair_def)
next
  case (Rejected e s1)
  then show ?thesis by (simp add: embedBackground_def embedPair_def)
next
  case (Resolved r s1)
  obtain n1 b1 where r: "r = (n1, b1)" by (cases r)
  show ?thesis
  proof (cases "if \<not> b1 then embedProp E ''background-image'' n1 s1 else Resolved (n1, b1) s1")
    case Pending
    with Resolved r show ?thesis by (simp add: embedBackground_def embedPair_def)
  next
    case (Rejected e s2)
    with Resolved r show ?thesis by (simp add: embedBackground_def embedPair_def)
  next
    case Res2: (Resolved r2 s2)
    obtain n2 b2 where r2: "r2 = (n2, b2)" by (cases r2)
    from Resolved r Res2 r2 show ?thesis
      by (simp add: embedBackground_def embedPair_def)
  qed
qed

lemma embedPair_spec:
  assumes st: "nodeStyle n = Some st"
    and out: "embedPair E sh lh n s = Resolved n' s'"
    and ne: "sh \<noteq> lh"
  shows "\<exists>st'. nodeStyle n' = Some st' \<and>
           calls s' =
             calls s @ map (\<lambda>t. EmbedResources (getPropertyValue st t)) (firstPresent st sh lh) \<and>
           (\<forall>name. if name \<in> set (firstPresent st sh lh) then rewritten E st st' name
                   else map_of st' name = map_of st name)"
proof (cases "getPropertyValue st sh = []")
  case False
  then have tgt: "firstPresent st sh lh = [sh]" by (simp add: firstPresent_def)
  from out st False obtain css where
    css: "embedResources E (getPropertyValue st sh) = Inr css"
    and n': "n' = setStyle (Some (setProperty st sh css (getPropertyPriority st sh))) n"
    and s': "s' = invoke E (EmbedResources (getPropertyValue st sh)) s"
    by (auto simp: embedPair_def embedProp_eq split: sum.splits)
  show ?thesis
    using st tgt css n' s'
    by (simp add: nodeStyle_setStyle rewritten_def invoke_def
        getPropertyValue_setProperty_same getPropertyPriority_setProperty_same
        map_of_setProperty_other)
next
  case shEmpty: True
  show ?thesis
  proof (cases "getPropertyValue st lh = []")
    case True
    with shEmpty have tgt: "firstPresent st sh lh = []" by (simp add: firstPresent_def)
    from out st shEmpty True have "n' = n" "s' = s"
      by (auto simp: embedPair_def embedProp_eq)
    with st tgt show ?thesis by simp
  next
    case False
    with shEmpty have tgt: "firstPresent st sh lh = [lh]" by (simp add: firstPresent_def)
    from out st shEmpty False obtain css where
      css: "embedResources E (getPropertyValue st lh) = Inr css"
      and n': "n' = setStyle (Some (setProperty st lh css (getPropertyPriority st lh))) n"
      and s': "s' = invoke E (EmbedResources (getPropertyValue st lh)) s"
      by (auto simp: embedPair_def embedProp_eq split: sum.splits)
    show ?thesis
      using st tgt css n' s'
      by (simp add: nodeStyle_setStyle rewritten_def invoke_def
          getPropertyValue_setProperty_same getPropertyPriority_setProperty_same
          map_of_setProperty_other)
  qed
qed

lemma firstPresent_subset: "set (firstPresent st sh lh) \<subseteq> {sh, lh}"
  by (auto simp: firstPresent_def)

lemma firstPresent_cong:
  "map_of st' sh = map_of st sh \<Longrightarrow> map_of st' lh = map_of st lh \<Longrightarrow>
   firstPresent st' sh lh = firstPresent st sh lh"
  by (simp add: firstPresent_def getPropertyValue_def)

lemma rewritten_src_cong:
  assumes "map_of st1 name = map_of st name" and "rewritten E st1 st' name"
  shows "rewritten E st st' name"
proof -
  from assms(1) have v: "getPropertyValue st1 name = getPropertyValue st name"
    by (rule map_of_eq_value)
  from assms(1) have p: "getPropertyPriority st1 name = getPropertyPriority st name"
    by (rule map_of_eq_priority)
  from assms(2) show ?thesis by (simp add: rewritten_def v p split: sum.splits)
qed

lemma rewritten_dst_cong:
  assumes "map_of st' name = map_of st1 name" and "rewritten E st st1 name"
  shows "rewritten E st st' name"
proof -
  from assms(1) have v: "getPropertyValue st' name = getPropertyValue st1 name"
    by (rule map_of_eq_value)
  from assms(1) have p: "getPropertyPriority st' name = getPropertyPriority st1 name"
    by (rule map_of_eq_priority)
  from assms(2) show ?thesis by (simp add: rewritten_def v p split: sum.splits)
qed

lemma embedBackground_styled:
  assumes st: "nodeStyle n = Some st"
    and out: "embedBackground E n s = Resolved n' s'"
  shows "\<exists>st'. nodeStyle n' = Some st' \<and>
           calls s' =
             calls s @
             map (\<lambda>t. EmbedResources (getPropertyValue st t))
               (firstPresent st ''background'' ''background-image'' @
                firstPresent st ''mask'' ''mask-image'') \<and>
           (\<forall>name.
              if name \<in> set (firstPresent st ''background'' ''background-image'' @
                             firstPresent st ''mask'' ''mask-image'')
              then rewritten E st st' name
              else map_of st' name = map_of st name) \<and>
           (getPropertyValue st ''background'' \<noteq> [] \<longrightarrow>
              map_of st' ''background-image'' = map_of st ''background-image'') \<and>
           (getPropertyValue st ''mask'' \<noteq> [] \<longrightarrow>
              map_of st' ''mask-image'' = map_of st ''mask-image'')"
proof -
  let ?B = "firstPresent st ''background'' ''background-image''"
  let ?M = "firstPresent st ''mask'' ''mask-image''"
  from out obtain n1 s1 where
    p1: "embedPair E ''background'' ''background-image'' n s = Resolved n1 s1"
    and p2: "embedPair E ''mask'' ''mask-image'' n1 s1 = Resolved n' s'"
    by (cases "embedPair E ''background'' ''background-image'' n s")
       (simp_all add: embedBackground_pairs)
  from embedPair_spec [OF st p1] obtain st1 where
    st1: "nodeStyle n1 = Some st1"
    and c1: "calls s1 = calls s @ map (\<lambda>t. EmbedResources (getPropertyValue st t)) ?B"
    and r1: "\<forall>name. if name \<in> set ?B then rewritten E st st1 name
                     else map_of st1 name = map_of st name"
    by auto
  let ?M1 = "firstPresent st1 ''mask'' ''mask-image''"
  from embedPair_spec [OF st1 p2] obtain st' where
    st': "nodeStyle n' = Some st'"
    and c2: "calls s' = calls s1 @ map (\<lambda>t. EmbedResources (getPropertyValue st1 t)) ?M1"
    and r2: "\<forall>name. if name \<in> set ?M1 then rewritten E st1 st' name
                     else map_of st' name = map_of st1 name"
    by auto
  have Bsub: "set ?B \<subseteq> {''background'', ''background-image''}"
    by (rule firstPresent_subset)
  have Msub: "set ?M \<subseteq> {''mask'', ''mask-image''}"
    by (rule firstPresent_subset)
  have keepM: "map_of st1 name = map_of st name" if "name \<in> {''mask'', ''mask-image''}" for name
  proof -
    from that Bsub have "name \<notin> set ?B" by auto
    with r1 show ?thesis by simp
  qed
  have M1: "?M1 = ?M"
    by (rule firstPresent_cong) (simp_all add: keepM)
  have valM: "getPropertyValue st1 t = getPropertyValue st t" if "t \<in> set ?M" for t
  proof -
    from that Msub have "t \<in> {''mask'', ''mask-image''}" by blast
    then have "map_of st1 t = map_of st t" by (rule keepM)
    then show ?thesis by (rule map_of_eq_value)
  qed
  have calls: "calls s' = calls s @ map (\<lambda>t. EmbedResources (getPropertyValue st t)) (?B @ ?M)"
    using c1 c2 valM by (simp add: M1 cong: map_cong)
  have each: "if name \<in> set (?B @ ?M) then rewritten E st st' name
              else map_of st' name = map_of st name" for name
  proof (cases "name \<in> set ?M")
    case True
    with Msub have nm: "name \<in> {''mask'', ''mask-image''}" by blast
    from True r2 have "rewritten E st1 st' name" by (simp add: M1)
    with keepM [OF nm] have "rewritten E st st' name" by (rule rewritten_src_cong)
    with True show ?thesis by simp
  next
    case notM: False
    with r2 have same: "map_of st' name = map_of st1 name" by (simp add: M1)
    show ?thesis
    proof (cases "name \<in> set ?B")
      case True
      with r1 have "rewritten E st st1 name" by simp
      with same have "rewritten E st st' name" by (rule rewritten_dst_cong)
      with True show ?thesis by simp
    next
      case False
      with r1 same notM show ?thesis by simp
    qed
  qed
  have bi: "map_of st' ''background-image'' = map_of st ''background-image''"
    if "getPropertyValue st ''background'' \<noteq> []"
  proof -
    from that have "?B = [''background'']" by (simp add: firstPresent_def)
    moreover have "''background-image'' \<notin> set ?M" using Msub by auto
    ultimately have "''background-image'' \<notin> set (?B @ ?M)" by simp
    with each [of "''background-image''"] show ?thesis by (simp del: set_append)
  qed
  have mi: "map_of st' ''mask-image'' = map_of st ''mask-image''"
    if "getPropertyValue st ''mask'' \<noteq> []"
  proof -
    from that have "?M = [''mask'']" by (simp add: firstPresent_def)
    moreover have "''mask-image'' \<notin> set ?B" using Bsub by auto
    ultimately have "''mask-image'' \<notin> set (?B @ ?M)" by simp
    with each [of "''mask-image''"] show ?thesis by (simp del: set_append)
  qed
  from st' calls each bi mi show ?thesis by blast
qed

lemma embedProp_no_style:
  "nodeStyle n = None \<Longrightarrow> embedProp E name n s = Resolved (n, False) s"
  by (simp add: embedProp_def)

text \<open>
  Claim C3. On a node without a style object \<open>embedBackground\<close> changes nothing. When
  it succeeds on an element with an inline style, the
  values passed to the rewriter are, in order, that of \<open>background\<close> if it has one and
  else that of \<open>background-image\<close> if it has one, then the same for \<open>mask\<close> and
  \<open>mask-image\<close>: never both of a pair. Each property so chosen holds the rewritten value
  afterwards, under the priority it had (when the rewritten value is not empty); every
  other declaration is as it was, so \<open>background-image\<close> is untouched when
  \<open>background\<close> has a value, and \<open>mask-image\<close> when \<open>mask\<close> has one.
\<close>

theorem embedBackground_exclusive:
  "(nodeStyle n = None \<longrightarrow> embedBackground E n s = Resolved n s) \<and>
   (\<forall>st n' s'. nodeStyle n = Some st \<and> embedBackground E n s = Resolved n' s' \<longrightarrow>
      (\<exists>st'. nodeStyle n' = Some st' \<and>
           calls s' =
             calls s @
             map (\<lambda>t. EmbedResources (getPropertyValue st t))
               (firstPresent st ''background'' ''background-image'' @
                firstPresent st ''mask'' ''mask-image'') \<and>
           (\<forall>name.
              if name \<in> set (firstPresent st ''background'' ''background-image'' @
                             firstPresent st ''mask'' ''mask-image'')
              then rewritten E st st' name
              else map_of st' name = map_of st name) \<and>
           (getPropertyValue st ''background'' \<noteq> [] \<longrightarrow>
              map_of st' ''background-image'' = map_of st ''background-image'') \<and>
           (getPropertyValue st ''mask'' \<noteq> [] \<longrightarrow>
              map_of st' ''mask-image'' = map_of st ''mask-image'')))"
proof (intro conjI allI impI)
  assume "nodeStyle n = None"
  then show "embedBackground E n s = Resolved n s"
    by (simp add: embedBackground_def embedProp_no_style)
next
  fix st n' s'
  assume "nodeStyle n = Some st \<and> embedBackground E n s = Resolved n' s'"
  then have st: "nodeStyle n = Some st" and out: "embedBackground E n s = Resolved n' s'"
    by simp_all
  from embedBackground_styled [OF st out]
  show "\<exists>st'. nodeStyle n' = Some st' \<and>
           calls s' =
             calls s @
             map (\<lambda>t. EmbedResources (getPropertyValue st t))
               (firstPresent st ''background'' ''background-image'' @
                firstPresent st ''mask'' ''mask-image'') \<and>
           (\<forall>name.
              if name \<in> set (firstPresent st ''background'' ''background-image'' @
                             firstPresent st ''mask'' ''mask-image'')
              then rewritten E st st' name
              else map_of st' name = map_of st name) \<and>
           (getPropertyValue st ''background'' \<noteq> [] \<longrightarrow>
              map_of st' ''background-image'' = map_of st ''background-image'') \<and>
           (getPropertyValue st ''mask'' \<noteq> [] \<longrightarrow>
              map_of st' ''mask-image'' = map_of st ''mask-image'')" .
qed

section \<open>The Image Node Embedder\<close>

lemma embedImageNode_skip:
  assumes "\<not> (isInstanceOfElement n HTMLImageElement \<and> \<not> isDataUrl E (getProp src [] n))"
    and "\<not> (isInstanceOfElement n SVGImageElement \<and> \<not> isDataUrl E (getProp hrefBaseVal [] n))"
  shows "embedImageNode E n s = Resolved n s"
  using assms
  by (cases n) (auto simp: embedImageNode_def needsEmbedding_def getProp_def)

lemma embedImageNode_result:
  assumes "embedImageNode E n s = Resolved n1 s1" and "needsEmbedding E n"
  shows "\<exists>d. resourceToDataURL E (imageUrl n) (getMimeType E (imageUrl n)) = Inr d \<and>
           n1 = setProps (armImage (isInstanceOfElement n HTMLImageElement) d) n \<and>
           s1 = invoke E (AwaitLoad n1)
                  (invoke E (ResourceToDataURL (imageUrl n) (getMimeType E (imageUrl n))) s)"
  using assms
  by (auto simp: embedImageNode_def awaitResult_def Let_def split: sum.splits loadEvent.splits)

lemma needsEmbedding_url:
  "needsEmbedding E n \<Longrightarrow> \<not> isDataUrl E (imageUrl n)"
  by (cases n) (auto simp: needsEmbedding_def imageUrl_def)

lemma needsEmbedding_iff:
  "needsEmbedding E n \<longleftrightarrow>
     (isInstanceOfElement n HTMLImageElement \<and> \<not> isDataUrl E (getProp src [] n)) \<or>
     (isInstanceOfElement n SVGImageElement \<and> \<not> isDataUrl E (getProp hrefBaseVal [] n))"
  by (cases n) (auto simp: needsEmbedding_def getProp_def)

lemma imageUrl_armed:
  "needsEmbedding E n \<Longrightarrow>
   imageUrl (setProps (armImage (isInstanceOfElement n HTMLImageElement) d) n) = d"
  by (cases n) (auto simp: needsEmbedding_def imageUrl_def armImage_def Let_def)

lemma needsEmbedding_armed:
  "needsEmbedding E n \<Longrightarrow> isDataUrl E d \<Longrightarrow>
   \<not> needsEmbedding E (setProps (armImage (isInstanceOfElement n HTMLImageElement) d) n)"
  by (cases n) (auto simp: needsEmbedding_def armImage_def Let_def)

lemma embedImageNode_calls:
  assumes "outcomeState (embedImageNode E n s) = Some s'"
  shows "\<exists>new. calls s' = calls s @ new \<and>
           (\<forall>u m. ResourceToDataURL u m \<in> set new \<longrightarrow> \<not> isDataUrl E u)"
proof (cases "needsEmbedding E n")
  case False
  with assms have "s' = s" by (simp add: embedImageNode_def)
  then show ?thesis by simp
next
  case True
  from needsEmbedding_url [OF True] have nd: "\<not> isDataUrl E (imageUrl n)" .
  let ?c = "ResourceToDataURL (imageUrl n) (getMimeType E (imageUrl n))"
  from assms True have
    "(\<exists>n1. calls s' = calls s @ [?c, AwaitLoad n1]) \<or> calls s' = calls s @ [?c]"
    by (auto simp: embedImageNode_def awaitResult_def Let_def invoke_def
        split: sum.splits loadEvent.splits)
  then show ?thesis
  proof
    assume "\<exists>n1. calls s' = calls s @ [?c, AwaitLoad n1]"
    then obtain n1 where "calls s' = calls s @ [?c, AwaitLoad n1]" ..
    with nd show ?thesis by auto
  next
    assume "calls s' = calls s @ [?c]"
    with nd show ?thesis by auto
  qed
qed

text \<open>
  Claim C2. \<open>embedImageNode\<close> leaves node and state as they are on every node that is
  neither an HTML image whose \<open>src\<close> is not a data URL nor an SVG image whose href is not
  a data URL. A node it has returned, if its source is now a data URL, is left unchanged by
  a second run. No URL that it passes to the Resource Resolver is a data URL.
\<close>

theorem embedImageNode_noop:
  "(\<not> (isInstanceOfElement n HTMLImageElement \<and> \<not> isDataUrl E (getProp src [] n)) \<and>
    \<not> (isInstanceOfElement n SVGImageElement \<and> \<not> isDataUrl E (getProp hrefBaseVal [] n))
      \<longrightarrow> embedImageNode E n s = Resolved n s) \<and>
   (\<forall>n1 s1 s2. embedImageNode E n s = Resolved n1 s1 \<and> isDataUrl E (imageUrl n1)
      \<longrightarrow> embedImageNode E n1 s2 = Resolved n1 s2) \<and>
   (\<forall>s'. outcomeState (embedImageNode E n s) = Some s' \<longrightarrow>
      (\<exists>new. calls s' = calls s @ new \<and>
         (\<forall>u m. ResourceToDataURL u m \<in> set new \<longrightarrow> \<not> isDataUrl E u)))"
proof (intro conjI allI impI)
  assume "\<not> (isInstanceOfElement n HTMLImageElement \<and> \<not> isDataUrl E (getProp src [] n)) \<and>
    \<not> (isInstanceOfElement n SVGImageElement \<and> \<not> isDataUrl E (getProp hrefBaseVal [] n))"
  then show "embedImageNode E n s = Resolved n s"
    by (simp add: embedImageNode_skip)
next
  fix n1 s1 s2
  assume a: "embedImageNode E n s = Resolved n1 s1 \<and> isDataUrl E (imageUrl n1)"
  show "embedImageNode E n1 s2 = Resolved n1 s2"
  proof (cases "needsEmbedding E n")
    case False
    with a have "n1 = n" by (simp add: embedImageNode_def)
    with False show ?thesis by (simp add: embedImageNode_def)
  next
    case True
    from a have run: "embedImageNode E n s = Resolved n1 s1" ..
    from embedImageNode_result [OF run True] obtain d where
      n1: "n1 = setProps (armImage (isInstanceOfElement n HTMLImageElement) d) n"
      by blast
    from a n1 imageUrl_armed [OF True, of d] have "isDataUrl E d" by simp
    with True have "\<not> needsEmbedding E n1" unfolding n1 by (rule needsEmbedding_armed)
    then show ?thesis by (simp add: embedImageNode_def)
  qed
next
  fix s'
  assume "outcomeState (embedImageNode E n s) = Some s'"
  then show "\<exists>new. calls s' = calls s @ new \<and>
         (\<forall>u m. ResourceToDataURL u m \<in> set new \<longrightarrow> \<not> isDataUrl E u)"
    by (rule embedImageNode_calls)
qed

text \<open>
  Claim C9. A successful run on an HTML image whose \<open>src\<close> is not a data URL leaves
  \<open>srcset\<close> empty and \<open>src\<close> equal to what the Resource Resolver returned for the old
  \<open>src\<close>. A successful run on an SVG image whose href is not a data URL leaves the href
  equal to the resolved URL, and \<open>srcset\<close> and \<open>src\<close> as they were.
\<close>

theorem embedImageNode_sources:
  "(isInstanceOfElement n HTMLImageElement \<and> \<not> isDataUrl E (getProp src [] n) \<and>
    embedImageNode E n s = Resolved n' s' \<longrightarrow>
      (\<exists>p p' d. nodeProps n = Some p \<and> nodeProps n' = Some p' \<and>
         resourceToDataURL E (src p) (getMimeType E (src p)) = Inr d \<and>
         srcset p' = [] \<and> src p' = d)) \<and>
   (isInstanceOfElement n SVGImageElement \<and> \<not> isDataUrl E (getProp hrefBaseVal [] n) \<and>
    embedImageNode E n s = Resolved n' s' \<longrightarrow>
      (\<exists>p p' d. nodeProps n = Some p \<and> nodeProps n' = Some p' \<and>
         resourceToDataURL E (hrefBaseVal p) (getMimeType E (hrefBaseVal p)) = Inr d \<and>
         hrefBaseVal p' = d \<and> srcset p' = srcset p \<and> src p' = src p))"
proof (intro conjI impI)
  assume a: "isInstanceOfElement n HTMLImageElement \<and> \<not> isDataUrl E (getProp src [] n) \<and>
    embedImageNode E n s = Resolved n' s'"
  then have need: "needsEmbedding E n" by (simp add: needsEmbedding_iff)
  from a have run: "embedImageNode E n s = Resolved n' s'" by simp
  from embedImageNode_result [OF run need] obtain d where
    d: "resourceToDataURL E (imageUrl n) (getMimeType E (imageUrl n)) = Inr d"
    and n': "n' = setProps (armImage (isInstanceOfElement n HTMLImageElement) d) n"
    by blast
  from a d n' show "\<exists>p p' d. nodeProps n = Some p \<and> nodeProps n' = Some p' \<and>
         resourceToDataURL E (src p) (getMimeType E (src p)) = Inr d \<and>
         srcset p' = [] \<and> src p' = d"
    by (cases n) (auto simp: imageUrl_def armImage_def Let_def)
next
  assume a: "isInstanceOfElement n SVGImageElement \<and> \<not> isDataUrl E (getProp hrefBaseVal [] n) \<and>
    embedImageNode E n s = Resolved n' s'"
  then have need: "needsEmbedding E n" by (simp add: needsEmbedding_iff)
  from a have run: "embedImageNode E n s = Resolved n' s'" by simp
  from embedImageNode_result [OF run need] obtain d where
    d: "resourceToDataURL E (imageUrl n) (getMimeType E (imageUrl n)) = Inr d"
    and n': "n' = setProps (armImage (isInstanceOfElement n HTMLImageElement) d) n"
    by blast
  from a d n' show "\<exists>p p' d. nodeProps n = Some p \<and> nodeProps n' = Some p' \<and>
         resourceToDataURL E (hrefBaseVal p) (getMimeType E (hrefBaseVal p)) = Inr d \<and>
         hrefBaseVal p' = d \<and> srcset p' = srcset p \<and> src p' = src p"
    by (cases n) (auto simp: imageUrl_def armImage_def Let_def)
qed

section \<open>The embedders at concrete nodes\<close>

lemmas demo_defs =
  demoEnv_def emptyState_def plainElement_def emptyProps_def demoImage_def invoke_def
  awaitResult_def

lemma styledDiv_run:
  "embedBackground (demoEnv styledDiv) styledDiv emptyState =
     Resolved styledDivEmbedded
       \<lparr>clock = 2, calls = [EmbedResources ''url(a.png)'', EmbedResources ''url(m.png)'']\<rparr>"
  by (simp add: embedBackground_def embedProp_def styledDiv_def styledDivEmbedded_def demo_defs
      getPropertyValue_def getPropertyPriority_def setProperty_def Let_def)

text \<open>
  Claim C3 at an element with an important \<open>background\<close>, a \<open>background-image\<close> and a
  \<open>mask-image\<close>.
\<close>

theorem embedBackground_exclusive_witness:
  "nodeStyle styledDiv =
     Some [(''background'', ''url(a.png)'', ''important''),
           (''background-image'', ''url(b.png)'', []),
           (''mask-image'', ''url(m.png)'', [])] \<and>
   embedBackground (demoEnv styledDiv) styledDiv emptyState =
     Resolved styledDivEmbedded
       \<lparr>clock = 2, calls = [EmbedResources ''url(a.png)'', EmbedResources ''url(m.png)'']\<rparr> \<and>
   (\<exists>st'. nodeStyle styledDivEmbedded = Some st' \<and>
      getPropertyValue st' ''background'' = ''embedded url(a.png)'' \<and>
      getPropertyPriority st' ''background'' = ''important'' \<and>
      map_of st' ''background-image'' = Some (''url(b.png)'', []))"
proof -
  let ?st = "[(''background'', ''url(a.png)'', ''important''),
           (''background-image'', ''url(b.png)'', []),
           (''mask-image'', ''url(m.png)'', [])]"
  have h1: "nodeStyle styledDiv = Some ?st"
    by (simp add: styledDiv_def plainElement_def)
  note h2 = styledDiv_run
  from embedBackground_exclusive [of styledDiv "demoEnv styledDiv" emptyState,
      THEN conjunct2, rule_format, OF conjI [OF h1 h2]]
  obtain st' where
    st': "nodeStyle styledDivEmbedded = Some st'"
    and each: "\<forall>name.
              if name \<in> set (firstPresent ?st ''background'' ''background-image'' @
                             firstPresent ?st ''mask'' ''mask-image'')
              then rewritten (demoEnv styledDiv) ?st st' name
              else map_of st' name = map_of ?st name"
    and keep: "getPropertyValue ?st ''background'' \<noteq> [] \<longrightarrow>
              map_of st' ''background-image'' = map_of ?st ''background-image''"
    by blast
  from each have "rewritten (demoEnv styledDiv) ?st st' ''background''"
    by (simp add: firstPresent_def getPropertyValue_def)
  then have bg: "getPropertyValue st' ''background'' = ''embedded url(a.png)'' \<and>
      getPropertyPriority st' ''background'' = ''important''"
    by (simp add: rewritten_def demoEnv_def getPropertyValue_def getPropertyPriority_def)
  from keep have "map_of st' ''background-image'' = Some (''url(b.png)'', [])"
    by (simp add: getPropertyValue_def)
  with h1 h2 st' bg show ?thesis by blast
qed

lemma remoteImage_run:
  "embedImageNode (demoEnv remoteImage) remoteImage emptyState =
     Resolved inlineImage
       \<lparr>clock = 2, calls = [ResourceToDataURL ''a.png'' ''image/png'', AwaitLoad inlineImage]\<rparr>"
  by (simp add: embedImageNode_def needsEmbedding_def imageUrl_def remoteImage_def
      inlineImage_def demo_defs Let_def)

text \<open>
  Claim C2 at an image with a remote source and at the image it becomes.
\<close>

theorem embedImageNode_noop_witness:
  "\<not> (isInstanceOfElement inlineImage HTMLImageElement \<and>
      \<not> isDataUrl (demoEnv remoteImage) (getProp src [] inlineImage)) \<and>
   \<not> (isInstanceOfElement inlineImage SVGImageElement \<and>
      \<not> isDataUrl (demoEnv remoteImage) (getProp hrefBaseVal [] inlineImage)) \<and>
   embedImageNode (demoEnv remoteImage) inlineImage emptyState = Resolved inlineImage emptyState \<and>
   embedImageNode (demoEnv remoteImage) remoteImage emptyState =
     Resolved inlineImage
       \<lparr>clock = 2, calls = [ResourceToDataURL ''a.png'' ''image/png'', AwaitLoad inlineImage]\<rparr> \<and>
   isDataUrl (demoEnv remoteImage) (imageUrl inlineImage) \<and>
   embedImageNode (demoEnv remoteImage) inlineImage
       \<lparr>clock = 2, calls = [ResourceToDataURL ''a.png'' ''image/png'', AwaitLoad inlineImage]\<rparr> =
     Resolved inlineImage
       \<lparr>clock = 2, calls = [ResourceToDataURL ''a.png'' ''image/png'', AwaitLoad inlineImage]\<rparr> \<and>
   outcomeState (embedImageNode (demoEnv remoteImage) remoteImage emptyState) =
     Some \<lparr>clock = 2, calls = [ResourceToDataURL ''a.png'' ''image/png'', AwaitLoad inlineImage]\<rparr> \<and>
   \<not> isDataUrl (demoEnv remoteImage) ''a.png''"
proof -
  let ?E = "demoEnv remoteImage"
  let ?s1 = "\<lparr>clock = 2, calls = [ResourceToDataURL ''a.png'' ''image/png'', AwaitLoad inlineImage]\<rparr>"
  have h1: "\<not> (isInstanceOfElement inlineImage HTMLImageElement \<and>
      \<not> isDataUrl ?E (getProp src [] inlineImage)) \<and>
   \<not> (isInstanceOfElement inlineImage SVGImageElement \<and>
      \<not> isDataUrl ?E (getProp hrefBaseVal [] inlineImage))"
    by (simp add: inlineImage_def demo_defs armImage_def getProp_def Let_def)
  have h2: "isDataUrl ?E (imageUrl inlineImage)"
    by (simp add: inlineImage_def demo_defs armImage_def imageUrl_def Let_def)
  note run = remoteImage_run
  have h3: "outcomeState (embedImageNode ?E remoteImage emptyState) = Some ?s1"
    by (simp add: run)
  from embedImageNode_noop [of inlineImage ?E emptyState] h1
  have c1: "embedImageNode ?E inlineImage emptyState = Resolved inlineImage emptyState"
    by blast
  from embedImageNode_noop [of remoteImage ?E emptyState] run h2
  have c2: "embedImageNode ?E inlineImage ?s1 = Resolved inlineImage ?s1"
    by blast
  from embedImageNode_noop [of remoteImage ?E emptyState] h3
  obtain new where new: "calls ?s1 = calls emptyState @ new"
    and all: "\<forall>u m. ResourceToDataURL u m \<in> set new \<longrightarrow> \<not> isDataUrl ?E u"
    by blast
  from new have "ResourceToDataURL ''a.png'' ''image/png'' \<in> set new"
    by (auto simp: emptyState_def)
  with all have c3: "\<not> isDataUrl ?E ''a.png''"
    by blast
  from h1 h2 h3 c1 c2 c3 run show ?thesis by blast
qed

lemma remoteSvgImage_run:
  "embedImageNode (demoEnv remoteImage) remoteSvgImage emptyState =
     Resolved (setProps (armImage False ''data:image/png,b.svg'') remoteSvgImage)
       \<lparr>clock = 2,
          calls = [ResourceToDataURL ''b.svg'' ''image/png'',
                   AwaitLoad (setProps (armImage False ''data:image/png,b.svg'') remoteSvgImage)]\<rparr>"
  by (simp add: embedImageNode_def needsEmbedding_def imageUrl_def remoteSvgImage_def
      demo_defs Let_def)

text \<open>
  Claim C9 at an HTML image and at an SVG image with remote sources.
\<close>

theorem embedImageNode_sources_witness:
  "isInstanceOfElement remoteImage HTMLImageElement \<and>
   \<not> isDataUrl (demoEnv remoteImage) (getProp src [] remoteImage) \<and>
   embedImageNode (demoEnv remoteImage) remoteImage emptyState =
     Resolved inlineImage
       \<lparr>clock = 2, calls = [ResourceToDataURL ''a.png'' ''image/png'', AwaitLoad inlineImage]\<rparr> \<and>
   getProp srcset ''?'' inlineImage = [] \<and>
   getProp src ''?'' inlineImage = ''data:image/png,a.png'' \<and>
   isInstanceOfElement remoteSvgImage SVGImageElement \<and>
   \<not> isDataUrl (demoEnv remoteImage) (getProp hrefBaseVal [] remoteSvgImage) \<and>
   (\<exists>n' s'. embedImageNode (demoEnv remoteImage) remoteSvgImage emptyState = Resolved n' s' \<and>
      getProp hrefBaseVal ''?'' n' = ''data:image/png,b.svg'' \<and>
      getProp srcset ''?'' n' = ''kept'')"
proof -
  let ?E = "demoEnv remoteImage"
  have h1: "isInstanceOfElement remoteImage HTMLImageElement \<and>
     \<not> isDataUrl ?E (getProp src [] remoteImage)"
    by (simp add: remoteImage_def demo_defs getProp_def)
  have h2: "isInstanceOfElement remoteSvgImage SVGImageElement \<and>
     \<not> isDataUrl ?E (getProp hrefBaseVal [] remoteSvgImage)"
    by (simp add: remoteSvgImage_def demo_defs getProp_def)
  from embedImageNode_sources [of remoteImage ?E emptyState inlineImage] h1 remoteImage_run
  obtain p p' d where "nodeProps remoteImage = Some p" "nodeProps inlineImage = Some p'"
    "resourceToDataURL ?E (src p) (getMimeType ?E (src p)) = Inr d"
    "srcset p' = []" "src p' = d"
    by blast
  then have c1: "getProp srcset ''?'' inlineImage = [] \<and>
      getProp src ''?'' inlineImage = ''data:image/png,a.png''"
    by (auto simp: getProp_def remoteImage_def demo_defs)
  let ?n' = "setProps (armImage False ''data:image/png,b.svg'') remoteSvgImage"
  from embedImageNode_sources [of remoteSvgImage ?E emptyState ?n'] h2 remoteSvgImage_run
  obtain q q' d' where "nodeProps remoteSvgImage = Some q" "nodeProps ?n' = Some q'"
    "resourceToDataURL ?E (hrefBaseVal q) (getMimeType ?E (hrefBaseVal q)) = Inr d'"
    "hrefBaseVal q' = d'" "srcset q' = srcset q"
    by blast
  then have c2: "getProp hrefBaseVal ''?'' ?n' = ''data:image/png,b.svg'' \<and>
      getProp srcset ''?'' ?n' = ''kept''"
    by (auto simp: getProp_def remoteSvgImage_def demo_defs)
  from h1 h2 c1 c2 remoteImage_run remoteSvgImage_run show ?thesis by blast
qed

section \<open>The font size at a concrete node\<close>

lemma sizedSpan_font:
  "cloneCSSStyle (demoEnv sizedSpan) sizedSpan (shallowClone sizedSpan) =
     plainElement ''span'' [] [(''font-size'', ''15.9px'', [])] []"
  by (simp add: cloneCSSStyle_def copyProperty_def reducedFont_def sizedSpan_def demoEnv_def
      demoParseFloat_def demoNumberToString_def plainElement_def isDigit_def decimal_def
      getPropertyValue_def getPropertyPriority_def setProperty_def Let_def
      suffix_to_prefix)

section \<open>The selected option\<close>

lemma length_updateFirst: "length (updateFirst P f xs) = length xs"
  by (induction xs) simp_all

lemma updateFirst_nth:
  "i < length xs \<Longrightarrow>
   updateFirst P f xs ! i = (if firstMatch P xs i then f (xs ! i) else xs ! i)"
proof (induction xs arbitrary: i)
  case Nil
  then show ?case by simp
next
  case (Cons x xs)
  show ?case
  proof (cases "P x")
    case True
    then have "firstMatch P (x # xs) i \<longleftrightarrow> i = 0"
      using Cons.prems by (cases i) (auto simp: firstMatch_def)
    with True show ?thesis by (cases i) simp_all
  next
    case False
    show ?thesis
    proof (cases i)
      case 0
      with False show ?thesis by (simp add: firstMatch_def)
    next
      case (Suc k)
      with Cons.prems have k: "k < length xs" by simp
      have "firstMatch P (x # xs) (Suc k) \<longleftrightarrow> firstMatch P xs k"
        using False by (auto simp: firstMatch_def less_Suc_eq_0_disj)
      with Cons.IH [OF k] False Suc show ?thesis by simp
    qed
  qed
qed

lemma getAttribute_setAttribute_same:
  "isSupportedElement n \<Longrightarrow> getAttribute (setAttribute name v n) name = Some v"
  by (cases n) (simp_all add: getAttribute_def setAttribute_def update_conv')

lemma getAttribute_setAttribute_other:
  "name \<noteq> other \<Longrightarrow> getAttribute (setAttribute name v n) other = getAttribute n other"
  by (cases n) (simp_all add: getAttribute_def setAttribute_def update_conv')

lemma nodeChildren_setChildNodes:
  "isSupportedElement n \<Longrightarrow> nodeChildren (setChildNodes cs n) = cs"
  by (cases n) simp_all

text \<open>
  Claim C7, as amended. On a select element, \<open>cloneSelectValue\<close> keeps the number of
  children of the clone; the first child element of the clone whose \<open>value\<close> attribute
  equals the current value of the select carries a \<open>selected\<close> attribute afterwards and
  keeps its \<open>value\<close>; every other child is exactly as it was cloned, so it carries
  \<open>selected\<close> if and only if it did before.
\<close>

theorem cloneSelectValue_first_match:
  assumes sel: "isInstanceOfElement nativeNode HTMLSelectElement"
    and el: "isSupportedElement clonedNode"
    and i: "i < length (nodeChildren clonedNode)"
  shows "length (nodeChildren (cloneSelectValue nativeNode clonedNode)) =
           length (nodeChildren clonedNode) \<and>
         (if firstMatch (optionMatches (getProp elValue [] nativeNode)) (nodeChildren clonedNode) i
          then getAttribute (nodeChildren (cloneSelectValue nativeNode clonedNode) ! i) ''selected''
                 = Some [] \<and>
               getAttribute (nodeChildren (cloneSelectValue nativeNode clonedNode) ! i) ''value''
                 = Some (getProp elValue [] nativeNode)
          else nodeChildren (cloneSelectValue nativeNode clonedNode) ! i =
                 nodeChildren clonedNode ! i)"
proof -
  let ?P = "optionMatches (getProp elValue [] nativeNode)"
  let ?cs = "nodeChildren clonedNode"
  have cs': "nodeChildren (cloneSelectValue nativeNode clonedNode) =
      updateFirst ?P (setAttribute ''selected'' []) ?cs"
    using sel el
    by (simp add: cloneSelectValue_def nodeChildren_setChildNodes optionMatches_def [abs_def])
  show ?thesis
  proof (cases "firstMatch ?P ?cs i")
    case True
    then have m: "?P (?cs ! i)" by (simp add: firstMatch_def)
    then have e: "isSupportedElement (?cs ! i)" by (simp add: optionMatches_def)
    from m have v: "getAttribute (?cs ! i) ''value'' = Some (getProp elValue [] nativeNode)"
      by (simp add: optionMatches_def)
    from True i e v show ?thesis
      by (simp add: cs' length_updateFirst updateFirst_nth getAttribute_setAttribute_same
          getAttribute_setAttribute_other)
  next
    case False
    with i show ?thesis
      by (simp add: cs' length_updateFirst updateFirst_nth)
  qed
qed

lemma selectB_children:
  "nodeChildren (cloneSelectValue selectB selectB) =
     [plainElement ''option'' [(''value'', ''a''), (''selected'', [])] [] [],
      plainElement ''option'' [(''value'', ''b''), (''selected'', [])] [] []]"
  by (simp add: cloneSelectValue_def selectB_def getProp_def plainElement_def emptyProps_def
      getAttribute_def setAttribute_def)

text \<open>
  Claim C7, as amended, at a select with current value \<open>b\<close>.
\<close>

theorem cloneSelectValue_first_match_witness:
  "isInstanceOfElement selectB HTMLSelectElement \<and> isSupportedElement selectB \<and>
   1 < length (nodeChildren selectB) \<and>
   firstMatch (optionMatches (getProp elValue [] selectB)) (nodeChildren selectB) 1 \<and>
   getAttribute (nodeChildren (cloneSelectValue selectB selectB) ! 1) ''selected'' = Some [] \<and>
   \<not> firstMatch (optionMatches (getProp elValue [] selectB)) (nodeChildren selectB) 0 \<and>
   nodeChildren (cloneSelectValue selectB selectB) ! 0 = nodeChildren selectB ! 0"
proof -
  have h1: "isInstanceOfElement selectB HTMLSelectElement" by (simp add: selectB_def)
  have h2: "isSupportedElement selectB" by (simp add: selectB_def)
  have h3: "1 < length (nodeChildren selectB)" by (simp add: selectB_def)
  have h4: "0 < length (nodeChildren selectB)" by (simp add: selectB_def)
  have m1: "firstMatch (optionMatches (getProp elValue [] selectB)) (nodeChildren selectB) 1"
    by (simp add: firstMatch_def optionMatches_def selectB_def getProp_def plainElement_def
        getAttribute_def)
  have m0: "\<not> firstMatch (optionMatches (getProp elValue [] selectB)) (nodeChildren selectB) 0"
    by (simp add: firstMatch_def optionMatches_def selectB_def getProp_def plainElement_def
        getAttribute_def)
  from cloneSelectValue_first_match [OF h1 h2 h3] m1
  have c1: "getAttribute (nodeChildren (cloneSelectValue selectB selectB) ! 1) ''selected'' = Some []"
    by simp
  from cloneSelectValue_first_match [OF h1 h2 h4] m0
  have c0: "nodeChildren (cloneSelectValue selectB selectB) ! 0 = nodeChildren selectB ! 0"
    by simp
  from h1 h2 h3 m1 m0 c1 c0 show ?thesis by blast
qed

text \<open>
  Claim C7 as stated fails: the select has the current value \<open>b\<close>, its first option was
  cloned with the \<open>selected\<close> attribute of the markup, and after \<open>cloneSelectValue\<close>
  both the option \<open>a\<close> and the option \<open>b\<close> carry \<open>selected\<close>.
\<close>

theorem cloneSelectValue_keeps_selected_counterexample:
  "getProp elValue [] selectB = ''b'' \<and>
   getAttribute (nodeChildren (cloneSelectValue selectB selectB) ! 0) ''value'' = Some ''a'' \<and>
   getAttribute (nodeChildren (cloneSelectValue selectB selectB) ! 0) ''selected'' = Some [] \<and>
   getAttribute (nodeChildren (cloneSelectValue selectB selectB) ! 1) ''value'' = Some ''b'' \<and>
   getAttribute (nodeChildren (cloneSelectValue selectB selectB) ! 1) ''selected'' = Some []"
  by (simp add: selectB_children)
     (simp add: selectB_def getProp_def emptyProps_def plainElement_def getAttribute_def)

section \<open>Scroll position\<close>

lemma patchChildren_nth:
  "patchChildren E nativeNode cs = Inr cs' \<Longrightarrow>
   length cs' = length cs \<and>
   (\<forall>i<length cs.
      if isSupportedElement (cs ! i) then patchChild E nativeNode (cs ! i) = Inr (cs' ! i)
      else cs' ! i = cs ! i)"
proof (induction cs arbitrary: cs')
  case Nil
  then show ?case by simp
next
  case (Cons c cs)
  from Cons.prems obtain c' rest where
    cs': "cs' = c' # rest"
    and rest: "patchChildren E nativeNode cs = Inr rest"
    and c': "if isSupportedElement c then patchChild E nativeNode c = Inr c' else c' = c"
    by (auto split: if_splits sum.splits)
  from Cons.IH [OF rest] have
    len: "length rest = length cs"
    and nth: "\<forall>i<length cs.
      if isSupportedElement (cs ! i) then patchChild E nativeNode (cs ! i) = Inr (rest ! i)
      else rest ! i = cs ! i"
    by simp_all
  show ?case
  proof (intro conjI allI impI)
    show "length cs' = length (c # cs)" by (simp add: cs' len)
  next
    fix i assume "i < length (c # cs)"
    then show "if isSupportedElement ((c # cs) ! i)
         then patchChild E nativeNode ((c # cs) ! i) = Inr (cs' ! i)
         else cs' ! i = (c # cs) ! i"
      using c' nth by (cases i) (simp_all add: cs')
  qed
qed

lemma patchChild_element:
  assumes "isSupportedElement child" and "patchChild E nativeNode child = Inr child'"
  shows "\<exists>st m. nodeStyle child = Some st \<and>
           parseMatrix E (getPropertyValue st ''transform'') = Some m \<and>
           child' =
             setStyle
               (Some (setProperty st ''transform''
                  (matrixToString E
                     \<lparr>ma = ma m, mb = mb m, mc = mc m, md = md m,
                        me = me m - getProp scrollLeft 0 nativeNode,
                        mf = mf m - getProp scrollTop 0 nativeNode\<rparr>) []))
               child"
proof -
  from assms(1) have coll: "childrenCollection child \<noteq> None" by (cases child) simp_all
  from assms(2) coll obtain st m where
    st: "nodeStyle child = Some st"
    and m: "parseMatrix E (getPropertyValue st ''transform'') = Some m"
    by (auto simp: patchChild_def split: option.splits)
  have mat: "translateSelf (- getProp scrollLeft 0 nativeNode) (- getProp scrollTop 0 nativeNode)
               (m\<lparr>ma := 1, mb := 0, mc := 0, md := 1\<rparr>)
               \<lparr>ma := ma m, mb := mb m, mc := mc m, md := md m\<rparr> =
             \<lparr>ma = ma m, mb = mb m, mc = mc m, md = md m,
                me = me m - getProp scrollLeft 0 nativeNode,
                mf = mf m - getProp scrollTop 0 nativeNode\<rparr>"
    by (cases m) (simp add: translateSelf_def)
  from assms(2) coll st m have
    "child' = setStyle (Some (setProperty st ''transform''
        (matrixToString E
          (translateSelf (- getProp scrollLeft 0 nativeNode) (- getProp scrollTop 0 nativeNode)
             (m\<lparr>ma := 1, mb := 0, mc := 0, md := 1\<rparr>)
             \<lparr>ma := ma m, mb := mb m, mc := mc m, md := md m\<rparr>)) [])) child"
    by (simp add: patchChild_def Let_def)
  with st m mat show ?thesis by simp
qed

lemma nodeChildren_setStyle: "nodeChildren (setStyle x n) = nodeChildren n"
  by (cases n) simp_all

text \<open>
  Claim C8, as amended. An element with \<open>scrollTop = 0\<close> and \<open>scrollLeft = 0\<close> leaves the
  clone unchanged. On a scrolled element a successful \<open>cloneScrollPosition\<close> keeps the
  number of children; every child that is an element, with or without children of its own,
  gets as transform the serialisation of the matrix that has the entries a, b, c, d of its
  prior transform and the translation \<open>(e - scrollLeft, f - scrollTop)\<close>, and keeps its
  children; every child that is not an element is left as it was.
\<close>

theorem cloneScrollPosition_offsets:
  "(getProp scrollTop 0 nativeNode = 0 \<and> getProp scrollLeft 0 nativeNode = 0 \<longrightarrow>
      cloneScrollPosition E nativeNode clonedNode = Inr clonedNode) \<and>
   ((getProp scrollTop 0 nativeNode \<noteq> 0 \<or> getProp scrollLeft 0 nativeNode \<noteq> 0) \<and>
    isSupportedElement clonedNode \<and>
    cloneScrollPosition E nativeNode clonedNode = Inr patched \<and>
    i < length (nodeChildren clonedNode) \<longrightarrow>
      length (nodeChildren patched) = length (nodeChildren clonedNode) \<and>
      (if isSupportedElement (nodeChildren clonedNode ! i) then
         (\<exists>st m st'.
            nodeStyle (nodeChildren clonedNode ! i) = Some st \<and>
            parseMatrix E (getPropertyValue st ''transform'') = Some m \<and>
            nodeStyle (nodeChildren patched ! i) = Some st' \<and>
            getPropertyValue st' ''transform'' =
              matrixToString E
                \<lparr>ma = ma m, mb = mb m, mc = mc m, md = md m,
                   me = me m - getProp scrollLeft 0 nativeNode,
                   mf = mf m - getProp scrollTop 0 nativeNode\<rparr> \<and>
            nodeChildren (nodeChildren patched ! i) =
              nodeChildren (nodeChildren clonedNode ! i))
       else nodeChildren patched ! i = nodeChildren clonedNode ! i))"
proof (intro conjI impI)
  assume "getProp scrollTop 0 nativeNode = 0 \<and> getProp scrollLeft 0 nativeNode = 0"
  then show "cloneScrollPosition E nativeNode clonedNode = Inr clonedNode"
    by (simp add: cloneScrollPosition_def)
next
  assume a: "(getProp scrollTop 0 nativeNode \<noteq> 0 \<or> getProp scrollLeft 0 nativeNode \<noteq> 0) \<and>
    isSupportedElement clonedNode \<and>
    cloneScrollPosition E nativeNode clonedNode = Inr patched \<and>
    i < length (nodeChildren clonedNode)"
  let ?cs = "nodeChildren clonedNode"
  from a have el: "isSupportedElement clonedNode" and i: "i < length ?cs" by simp_all
  from el have coll: "childrenCollection clonedNode \<noteq> None" by (cases clonedNode) simp_all
  from a coll obtain cs' where
    run: "patchChildren E nativeNode ?cs = Inr cs'"
    and patched: "patched = setChildNodes cs' clonedNode"
    by (auto simp: cloneScrollPosition_def split: sum.splits)
  from el patched have kids: "nodeChildren patched = cs'"
    by (simp add: nodeChildren_setChildNodes)
  from patchChildren_nth [OF run] i have
    len: "length cs' = length ?cs"
    and nth: "if isSupportedElement (?cs ! i) then patchChild E nativeNode (?cs ! i) = Inr (cs' ! i)
              else cs' ! i = ?cs ! i"
    by simp_all
  show "length (nodeChildren patched) = length ?cs" by (simp add: kids len)
  show "if isSupportedElement (?cs ! i) then
         (\<exists>st m st'.
            nodeStyle (?cs ! i) = Some st \<and>
            parseMatrix E (getPropertyValue st ''transform'') = Some m \<and>
            nodeStyle (nodeChildren patched ! i) = Some st' \<and>
            getPropertyValue st' ''transform'' =
              matrixToString E
                \<lparr>ma = ma m, mb = mb m, mc = mc m, md = md m,
                   me = me m - getProp scrollLeft 0 nativeNode,
                   mf = mf m - getProp scrollTop 0 nativeNode\<rparr> \<and>
            nodeChildren (nodeChildren patched ! i) = nodeChildren (?cs ! i))
       else nodeChildren patched ! i = ?cs ! i"
  proof (cases "isSupportedElement (?cs ! i)")
    case False
    with nth show ?thesis by (simp add: kids)
  next
    case True
    with nth have "patchChild E nativeNode (?cs ! i) = Inr (cs' ! i)" by simp
    from patchChild_element [OF True this] obtain st m where
      st: "nodeStyle (?cs ! i) = Some st"
      and m: "parseMatrix E (getPropertyValue st ''transform'') = Some m"
      and c': "cs' ! i =
             setStyle
               (Some (setProperty st ''transform''
                  (matrixToString E
                     \<lparr>ma = ma m, mb = mb m, mc = mc m, md = md m,
                        me = me m - getProp scrollLeft 0 nativeNode,
                        mf = mf m - getProp scrollTop 0 nativeNode\<rparr>) []))
               (?cs ! i)"
      by blast
    from True st m c' show ?thesis
      by (simp add: kids nodeStyle_setStyle getPropertyValue_setProperty_same
          nodeChildren_setStyle)
  qed
qed
lemma scrolled_run:
  "cloneScrollPosition (demoEnv scrolledBox) scrolledBox scrolledClone = Inr scrolledPatched"
  by (simp add: cloneScrollPosition_def patchChild_def scrolledBox_def turnedChild_def
      emptyChild_def plainElement_def emptyProps_def getProp_def demoEnv_def
      demoParseMatrix_def demoMatrixToString_def quarterTurn_def translateSelf_def
      getPropertyValue_def setProperty_def Let_def scrolledClone_def scrolledPatched_def)

text \<open>
  Claim C8, as amended, at an element scrolled by (10, 20) with a child turned by a quarter,
  a text node and an empty child.
\<close>

theorem cloneScrollPosition_offsets_witness:
  "getProp scrollTop 0 emptyChild = 0 \<and> getProp scrollLeft 0 emptyChild = 0 \<and>
   cloneScrollPosition (demoEnv scrolledBox) emptyChild scrolledClone = Inr scrolledClone \<and>
   getProp scrollTop 0 scrolledBox = 20 \<and> getProp scrollLeft 0 scrolledBox = 10 \<and>
   isSupportedElement scrolledClone \<and>
   cloneScrollPosition (demoEnv scrolledBox) scrolledBox scrolledClone = Inr scrolledPatched \<and>
   0 < length (nodeChildren scrolledClone) \<and>
   isSupportedElement (nodeChildren scrolledClone ! 0) \<and>
   (\<exists>st m st'.
      nodeStyle (nodeChildren scrolledClone ! 0) = Some st \<and>
      parseMatrix (demoEnv scrolledBox) (getPropertyValue st ''transform'') = Some m \<and>
      nodeStyle (nodeChildren scrolledPatched ! 0) = Some st' \<and>
      getPropertyValue st' ''transform'' =
        matrixToString (demoEnv scrolledBox)
          \<lparr>ma = ma m, mb = mb m, mc = mc m, md = md m, me = me m - 10, mf = mf m - 20\<rparr>) \<and>
   1 < length (nodeChildren scrolledClone) \<and>
   \<not> isSupportedElement (nodeChildren scrolledClone ! 1) \<and>
   nodeChildren scrolledPatched ! 1 = nodeChildren scrolledClone ! 1"
proof -
  let ?E = "demoEnv scrolledBox"
  have h0: "getProp scrollTop 0 emptyChild = 0 \<and> getProp scrollLeft 0 emptyChild = 0"
    by (simp add: emptyChild_def plainElement_def emptyProps_def getProp_def)
  have h1: "getProp scrollTop 0 scrolledBox \<noteq> 0 \<or> getProp scrollLeft 0 scrolledBox \<noteq> 0"
    by (simp add: scrolledBox_def emptyProps_def getProp_def)
  have sl: "getProp scrollLeft 0 scrolledBox = 10" and st: "getProp scrollTop 0 scrolledBox = 20"
    by (simp_all add: scrolledBox_def emptyProps_def getProp_def)
  have h2: "isSupportedElement scrolledClone"
    by (simp add: scrolledClone_def plainElement_def)
  note h3 = scrolled_run
  have h4: "0 < length (nodeChildren scrolledClone)" "1 < length (nodeChildren scrolledClone)"
    by (simp_all add: scrolledClone_def plainElement_def)
  have e0: "isSupportedElement (nodeChildren scrolledClone ! 0)"
    by (simp add: scrolledClone_def plainElement_def turnedChild_def)
  have e1: "\<not> isSupportedElement (nodeChildren scrolledClone ! 1)"
    by (simp add: scrolledClone_def plainElement_def)
  from cloneScrollPosition_offsets [of emptyChild ?E scrolledClone] h0
  have c0: "cloneScrollPosition ?E emptyChild scrolledClone = Inr scrolledClone"
    by blast
  from cloneScrollPosition_offsets [of scrolledBox ?E scrolledClone scrolledPatched 0]
    h1 h2 h3 h4(1) e0
  have c1: "\<exists>st m st'.
      nodeStyle (nodeChildren scrolledClone ! 0) = Some st \<and>
      parseMatrix ?E (getPropertyValue st ''transform'') = Some m \<and>
      nodeStyle (nodeChildren scrolledPatched ! 0) = Some st' \<and>
      getPropertyValue st' ''transform'' =
        matrixToString ?E
          \<lparr>ma = ma m, mb = mb m, mc = mc m, md = md m, me = me m - 10, mf = mf m - 20\<rparr>"
    by (simp add: sl st) blast
  from cloneScrollPosition_offsets [of scrolledBox ?E scrolledClone scrolledPatched 1]
    h1 h2 h3 h4(2) e1
  have c2: "nodeChildren scrolledPatched ! 1 = nodeChildren scrolledClone ! 1"
    by simp
  from h0 sl st h2 h3 h4 e0 e1 c0 c1 c2 show ?thesis by blast
qed

text \<open>
  Claim C8 as stated fails: a child element without children of its own is not skipped; its
  transform is rewritten.
\<close>

theorem cloneScrollPosition_childless_counterexample:
  "nodeChildren emptyChild = [] \<and>
   nodeStyle emptyChild = Some [] \<and>
   cloneScrollPosition (demoEnv scrolledBox) scrolledBox (plainElement ''div'' [] [] [emptyChild]) =
     Inr (plainElement ''div'' [] []
            [plainElement ''span'' [] [(''transform'', ''matrix(1, 0, 0, 1, -10, -20)'', [])] []])"
  by (simp add: cloneScrollPosition_def patchChild_def scrolledBox_def
      emptyChild_def plainElement_def emptyProps_def getProp_def demoEnv_def
      demoParseMatrix_def demoMatrixToString_def quarterTurn_def translateSelf_def
      getPropertyValue_def setProperty_def Let_def)

section \<open>IFrame elements\<close>

lemma nodeAttrs_shallowClone: "nodeAttrs (shallowClone n) = nodeAttrs n"
  by (cases n) simp_all

lemma nodeChildren_shallowClone: "nodeChildren (shallowClone n) = []"
  by (cases n) simp_all

text \<open>
  Claim C5. When reading the nested body throws or there is no body, \<open>cloneIFrameElement\<close>
  resolves, in the same state, to the shallow clone of the iframe, which has the attributes
  of the iframe and no children. It never rejects. When the body is there and its clone as
  a root resolves, that clone is the result; and a result other than the shallow clone is
  always such a clone of an accessible body.
\<close>

theorem cloneIFrameElement_fallback:
  "(nodeFrame iframe' = AccessThrows \<or> nodeFrame iframe' = NoBody \<longrightarrow>
      cloneIFrameElement rec iframe' s = Resolved (Some (shallowClone iframe')) s) \<and>
   nodeAttrs (shallowClone iframe') = nodeAttrs iframe' \<and>
   nodeChildren (shallowClone iframe') = [] \<and>
   (\<forall>e s'. cloneIFrameElement rec iframe' s \<noteq> Rejected e s') \<and>
   (\<forall>b r s'. nodeFrame iframe' = Body b \<and> rec b True s = Resolved r s' \<longrightarrow>
      cloneIFrameElement rec iframe' s = Resolved r s') \<and>
   (\<forall>r s'. cloneIFrameElement rec iframe' s = Resolved r s' \<and> r \<noteq> Some (shallowClone iframe')
      \<longrightarrow> (\<exists>b. nodeFrame iframe' = Body b \<and> rec b True s = Resolved r s'))"
proof (intro conjI allI impI)
  assume "nodeFrame iframe' = AccessThrows \<or> nodeFrame iframe' = NoBody"
  then show "cloneIFrameElement rec iframe' s = Resolved (Some (shallowClone iframe')) s"
    by (auto simp: cloneIFrameElement_def)
next
  show "nodeAttrs (shallowClone iframe') = nodeAttrs iframe'" by (rule nodeAttrs_shallowClone)
next
  show "nodeChildren (shallowClone iframe') = []" by (rule nodeChildren_shallowClone)
next
  fix e s'
  show "cloneIFrameElement rec iframe' s \<noteq> Rejected e s'"
    by (simp add: cloneIFrameElement_def split: frame.splits outcome.splits)
next
  fix b r s'
  assume "nodeFrame iframe' = Body b \<and> rec b True s = Resolved r s'"
  then show "cloneIFrameElement rec iframe' s = Resolved r s'"
    by (simp add: cloneIFrameElement_def)
next
  fix r s'
  assume "cloneIFrameElement rec iframe' s = Resolved r s' \<and> r \<noteq> Some (shallowClone iframe')"
  then show "\<exists>b. nodeFrame iframe' = Body b \<and> rec b True s = Resolved r s'"
    by (auto simp: cloneIFrameElement_def split: frame.splits outcome.splits)
qed

lemmas clone_defs =
  cloneStep_def cloneSingleElement_def cloneIFrameElement_def cloneChildren_def
  resolveChildren_def isSlotElement_def toUpperCase_def upperChar_def decorate_def
  cloneCSSStyle_def cloneInputValue_def cloneSelectValue_def ensureSVGSymbols_def
  isHTMLElement_def copyProperty_def getPropertyValue_def getPropertyPriority_def
  setProperty_def cloneCanvasElement_def cloneVideoElement_def getProp_def appendChild_def

lemma innerBody_run:
  "cloneNode 1 (demoEnv openFrame) noOptions (plainElement ''body'' [(''id'', ''inner'')] [] [])
     True emptyState =
   Resolved (Some (plainElement ''body'' [(''id'', ''inner'')] [] [])) emptyState"
  by (simp add: clone_defs demoEnv_def noOptions_def plainElement_def emptyState_def Let_def)

lemma blockedFrame_rejected:
  "cloneNode 2 (demoEnv openFrame) noOptions blockedFrame True emptyState =
     Rejected SecurityError emptyState"
  by (simp add: numeral_2_eq_2 clone_defs demoEnv_def noOptions_def blockedFrame_def
      emptyState_def Let_def)

text \<open>
  Claim C5 at an iframe whose document cannot be read and at one whose body can.
\<close>

theorem cloneIFrameElement_fallback_witness:
  "(nodeFrame blockedFrame = AccessThrows \<or> nodeFrame blockedFrame = NoBody) \<and>
   cloneIFrameElement (cloneNode 1 (demoEnv openFrame) noOptions) blockedFrame emptyState =
     Resolved (Some (shallowClone blockedFrame)) emptyState \<and>
   nodeAttrs (shallowClone blockedFrame) = [(''src'', ''https://other.example/'')] \<and>
   nodeFrame openFrame = Body (plainElement ''body'' [(''id'', ''inner'')] [] []) \<and>
   cloneNode 1 (demoEnv openFrame) noOptions (plainElement ''body'' [(''id'', ''inner'')] [] [])
     True emptyState =
     Resolved (Some (plainElement ''body'' [(''id'', ''inner'')] [] [])) emptyState \<and>
   cloneIFrameElement (cloneNode 1 (demoEnv openFrame) noOptions) openFrame emptyState =
     Resolved (Some (plainElement ''body'' [(''id'', ''inner'')] [] [])) emptyState \<and>
   Some (plainElement ''body'' [(''id'', ''inner'')] [] []) \<noteq> Some (shallowClone openFrame)"
proof -
  let ?rec = "cloneNode 1 (demoEnv openFrame) noOptions"
  let ?body = "plainElement ''body'' [(''id'', ''inner'')] [] []"
  have h1: "nodeFrame blockedFrame = AccessThrows \<or> nodeFrame blockedFrame = NoBody"
    by (simp add: blockedFrame_def)
  have h2: "nodeFrame openFrame = Body ?body"
    by (simp add: openFrame_def)
  note h3 = innerBody_run
  have h4: "Some ?body \<noteq> Some (shallowClone openFrame)"
    by (simp add: openFrame_def plainElement_def)
  from cloneIFrameElement_fallback [of blockedFrame ?rec emptyState] h1
  have c1: "cloneIFrameElement ?rec blockedFrame emptyState =
      Resolved (Some (shallowClone blockedFrame)) emptyState"
    by blast
  from cloneIFrameElement_fallback [of blockedFrame ?rec emptyState]
  have c2: "nodeAttrs (shallowClone blockedFrame) = [(''src'', ''https://other.example/'')]"
    by (simp add: blockedFrame_def)
  from cloneIFrameElement_fallback [of openFrame ?rec emptyState] h2 h3
  have c3: "cloneIFrameElement ?rec openFrame emptyState = Resolved (Some ?body) emptyState"
    by blast
  from h1 h2 h3 h4 c1 c2 c3 show ?thesis by blast
qed

section \<open>The children in order\<close>

lemma thenP_Resolved:
  "thenP p f = Resolved y s' \<longleftrightarrow> (\<exists>x s1. p = Resolved x s1 \<and> f x s1 = Resolved y s')"
  by (cases p) simp_all

lemma isSupportedElement_appendChild:
  "isSupportedElement n \<Longrightarrow> isSupportedElement (appendChild c n)"
  by (cases n) (simp_all add: appendChild_def)

lemma nodeChildren_appendChild:
  "isSupportedElement n \<Longrightarrow> nodeChildren (appendChild c n) = nodeChildren n @ [c]"
  by (simp add: appendChild_def nodeChildren_setChildNodes)

lemma cloneEach_sequential:
  assumes "cloneEach rec cs clonedNode s = Resolved out s'"
    and "isSupportedElement clonedNode"
  shows "\<exists>runs. map fst runs = cs \<and> sequentialRun rec s runs s' \<and>
           isSupportedElement out \<and>
           nodeChildren out = nodeChildren clonedNode @ appended runs"
  using assms
proof (induction cs arbitrary: clonedNode s)
  case Nil
  then have "map fst ([] :: childRun list) = [] \<and> sequentialRun rec s [] s' \<and>
      isSupportedElement out \<and> nodeChildren out = nodeChildren clonedNode @ appended []"
    by simp
  then show ?case by (rule exI [of _ "[]"])
next
  case (Cons child rest)
  from Cons.prems(1) obtain r s1 where
    first: "rec child False s = Resolved r s1"
    and tail: "cloneEach rec rest
                 (case r of None \<Rightarrow> clonedNode | Some c \<Rightarrow> appendChild c clonedNode) s1 =
               Resolved out s'"
    by (auto simp: thenP_Resolved)
  let ?next = "case r of None \<Rightarrow> clonedNode | Some c \<Rightarrow> appendChild c clonedNode"
  from Cons.prems(2) have el: "isSupportedElement ?next"
    by (cases r) (simp_all add: isSupportedElement_appendChild)
  from Cons.IH [OF tail el] obtain runs where
    runs: "map fst runs = rest" "sequentialRun rec s1 runs s'" "isSupportedElement out"
      "nodeChildren out = nodeChildren ?next @ appended runs"
    by blast
  let ?runs = "(child, s, r, s1) # runs"
  have "map fst ?runs = child # rest" using runs(1) by simp
  moreover have "sequentialRun rec s ?runs s'" using first runs(2) by simp
  moreover have "nodeChildren out = nodeChildren clonedNode @ appended ?runs"
    using runs(4) Cons.prems(2) by (cases r) (simp_all add: nodeChildren_appendChild)
  ultimately have "map fst ?runs = child # rest \<and> sequentialRun rec s ?runs s' \<and>
      isSupportedElement out \<and> nodeChildren out = nodeChildren clonedNode @ appended ?runs"
    using runs(3) by simp
  then show ?case by (rule exI [of _ "(child, s, r, s1) # runs"])
qed

lemma sequentialRun_handover:
  "sequentialRun rec s runs s' \<Longrightarrow> Suc i < length runs \<Longrightarrow>
   fst (snd (runs ! Suc i)) = snd (snd (snd (runs ! i)))"
proof (induction runs arbitrary: s i)
  case Nil
  then show ?case by simp
next
  case (Cons r runs)
  obtain child started res completed where r: "r = (child, started, res, completed)"
    by (cases r)
  from Cons.prems(1) r have tail: "sequentialRun rec completed runs s'" by simp
  show ?case
  proof (cases i)
    case 0
    with Cons.prems(2) obtain r2 runs2 where runs: "runs = r2 # runs2" by (cases runs) auto
    obtain c2 st2 res2 co2 where r2: "r2 = (c2, st2, res2, co2)" by (cases r2)
    from tail runs r2 have "st2 = completed" by simp
    with 0 r runs r2 show ?thesis by simp
  next
    case (Suc k)
    with Cons.prems(2) have "Suc k < length runs" by simp
    from Cons.IH [OF tail this] Suc show ?thesis by simp
  qed
qed

text \<open>
  Claim C1. When \<open>cloneChildren\<close> succeeds on an element that is not a video and whose
  resolved children are \<open>cs\<close>, there is a strictly sequential schedule of clones of
  exactly \<open>cs\<close>, in that order, from the initial to the final state: the clone of each
  child starts in the state, and so at the clock value, in which the clone of the child
  before it completed. The children appended to the clone are the clones that are not
  \<open>null\<close>, in the order of \<open>cs\<close>. This holds for every cloner, whatever time each of its
  calls takes.
\<close>

theorem cloneChildren_order:
  assumes "resolveChildren nativeNode = Inr cs"
    and "\<not> isInstanceOfElement nativeNode HTMLVideoElement"
    and "isSupportedElement clonedNode"
    and "cloneChildren rec nativeNode clonedNode s = Resolved out s'"
  shows "\<exists>runs. map fst runs = cs \<and> sequentialRun rec s runs s' \<and>
           (\<forall>i. Suc i < length runs \<longrightarrow>
              fst (snd (runs ! Suc i)) = snd (snd (snd (runs ! i)))) \<and>
           nodeChildren out = nodeChildren clonedNode @ appended runs"
proof (cases "cs = []")
  case True
  with assms have "out = clonedNode" "s' = s" by (simp_all add: cloneChildren_def)
  with True have "map fst ([] :: childRun list) = cs \<and> sequentialRun rec s [] s' \<and>
      (\<forall>i. Suc i < length ([] :: childRun list) \<longrightarrow>
         fst (snd (([] :: childRun list) ! Suc i)) = snd (snd (snd ([] ! i)))) \<and>
      nodeChildren out = nodeChildren clonedNode @ appended []" by simp
  then show ?thesis by (rule exI [of _ "[]"])
next
  case False
  with assms have "cloneEach rec cs clonedNode s = Resolved out s'"
    by (simp add: cloneChildren_def)
  from cloneEach_sequential [OF this assms(3)] obtain runs where
    runs: "map fst runs = cs \<and> sequentialRun rec s runs s' \<and> isSupportedElement out \<and>
     nodeChildren out = nodeChildren clonedNode @ appended runs" ..
  then have seq: "sequentialRun rec s runs s'" by simp
  have "\<forall>i. Suc i < length runs \<longrightarrow>
      fst (snd (runs ! Suc i)) = snd (snd (snd (runs ! i)))"
    using sequentialRun_handover [OF seq] by blast
  with runs have "map fst runs = cs \<and> sequentialRun rec s runs s' \<and>
     (\<forall>i. Suc i < length runs \<longrightarrow>
        fst (snd (runs ! Suc i)) = snd (snd (snd (runs ! i)))) \<and>
     nodeChildren out = nodeChildren clonedNode @ appended runs" by simp
  then show ?thesis by (rule exI [of _ runs])
qed

lemma gallery_run:
  "cloneChildren (cloneNode 1 (demoEnv gallery) noOptions) gallery (shallowClone gallery)
     emptyState =
   Resolved galleryClone
     \<lparr>clock = 66,
        calls = [CreateImage ''data:image/png,AAAAAAAAAAAAAAAA'',
                 CreateImage ''data:image/png,BBBB'', CreateImage ''data:image/png,C'']\<rparr>"
  by (simp add: clone_defs gallery_def galleryClone_def slowCanvas_def midCanvas_def
      fastCanvas_def demoEnv_def demoImage_def noOptions_def plainElement_def emptyProps_def
      emptyState_def awaitResult_def invoke_def Let_def)

text \<open>
  Claim C1 at a parent with three canvases, the first the slowest to clone and the last the
  fastest.
\<close>

theorem cloneChildren_order_witness:
  "resolveChildren gallery = Inr [slowCanvas, midCanvas, fastCanvas] \<and>
   \<not> isInstanceOfElement gallery HTMLVideoElement \<and>
   isSupportedElement (shallowClone gallery) \<and>
   latency (demoEnv gallery) (CreateImage ''data:image/png,C'') <
     latency (demoEnv gallery) (CreateImage ''data:image/png,AAAAAAAAAAAAAAAA'') \<and>
   cloneChildren (cloneNode 1 (demoEnv gallery) noOptions) gallery (shallowClone gallery)
     emptyState =
   Resolved galleryClone
     \<lparr>clock = 66,
        calls = [CreateImage ''data:image/png,AAAAAAAAAAAAAAAA'',
                 CreateImage ''data:image/png,BBBB'', CreateImage ''data:image/png,C'']\<rparr> \<and>
   (\<exists>runs. map fst runs = [slowCanvas, midCanvas, fastCanvas] \<and>
      appended runs =
        [demoImage ''data:image/png,AAAAAAAAAAAAAAAA'', demoImage ''data:image/png,BBBB'',
         demoImage ''data:image/png,C''])"
proof -
  let ?rec = "cloneNode 1 (demoEnv gallery) noOptions"
  have h1: "resolveChildren gallery = Inr [slowCanvas, midCanvas, fastCanvas]"
    by (simp add: clone_defs gallery_def plainElement_def)
  have h2: "\<not> isInstanceOfElement gallery HTMLVideoElement"
    by (simp add: gallery_def plainElement_def)
  have h3: "isSupportedElement (shallowClone gallery)"
    by (simp add: gallery_def plainElement_def)
  have h4: "latency (demoEnv gallery) (CreateImage ''data:image/png,C'') <
     latency (demoEnv gallery) (CreateImage ''data:image/png,AAAAAAAAAAAAAAAA'')"
    by (simp add: demoEnv_def)
  note h5 = gallery_run
  from cloneChildren_order [OF h1 h2 h3 h5] obtain runs where
    all: "map fst runs = [slowCanvas, midCanvas, fastCanvas] \<and>
      sequentialRun ?rec emptyState runs
        \<lparr>clock = 66,
           calls = [CreateImage ''data:image/png,AAAAAAAAAAAAAAAA'',
                    CreateImage ''data:image/png,BBBB'', CreateImage ''data:image/png,C'']\<rparr> \<and>
      (\<forall>i. Suc i < length runs \<longrightarrow>
           fst (snd (runs ! Suc i)) = snd (snd (snd (runs ! i)))) \<and>
      nodeChildren galleryClone = nodeChildren (shallowClone gallery) @ appended runs" ..
  then have runs: "map fst runs = [slowCanvas, midCanvas, fastCanvas]"
    and kids: "nodeChildren galleryClone = nodeChildren (shallowClone gallery) @ appended runs"
    by simp_all
  from kids have "appended runs =
        [demoImage ''data:image/png,AAAAAAAAAAAAAAAA'', demoImage ''data:image/png,BBBB'',
         demoImage ''data:image/png,C'']"
    by (simp add: galleryClone_def gallery_def plainElement_def)
  with runs have "map fst runs = [slowCanvas, midCanvas, fastCanvas] \<and>
      appended runs =
        [demoImage ''data:image/png,AAAAAAAAAAAAAAAA'', demoImage ''data:image/png,BBBB'',
         demoImage ''data:image/png,C'']"
    by simp
  then have "\<exists>runs. map fst runs = [slowCanvas, midCanvas, fastCanvas] \<and>
      appended runs =
        [demoImage ''data:image/png,AAAAAAAAAAAAAAAA'', demoImage ''data:image/png,BBBB'',
         demoImage ''data:image/png,C'']"
    by (rule exI [of _ runs])
  with h1 h2 h3 h4 h5 show ?thesis by simp
qed

section \<open>The filter\<close>

lemma cloneStep_root_not_null:
  "cloneStep rec E opts n True s \<noteq> Resolved None s'"
proof (cases "isSupportedElement n")
  case False
  then show ?thesis by (simp add: cloneStep_def)
next
  case True
  show ?thesis
  proof
    assume "cloneStep rec E opts n True s = Resolved None s'"
    with True obtain c1 s1 where
      rest: "(case c1 of
                None \<Rightarrow> Rejected TypeError s1
              | Some cl \<Rightarrow>
                  thenP (cloneChildren rec n cl s1)
                    (\<lambda>c2 s2.
                       case decorate E opts n c2 of
                         Inl e \<Rightarrow> Rejected e s2
                       | Inr c3 \<Rightarrow>
                           thenP (ensureSVGSymbols rec E c3 s2)
                             (\<lambda>c4 s4. Resolved (Some c4) s4))) = Resolved None s'"
      by (auto simp: cloneStep_def thenP_Resolved)
    then obtain cl where c1: "c1 = Some cl" by (cases c1) simp_all
    with rest obtain c2 s2 where
      rest2: "(case decorate E opts n c2 of
                 Inl e \<Rightarrow> Rejected e s2
               | Inr c3 \<Rightarrow>
                   thenP (ensureSVGSymbols rec E c3 s2)
                     (\<lambda>c4 s4. Resolved (Some c4) s4)) = Resolved None s'"
      by (auto simp: thenP_Resolved)
    then obtain c3 where "decorate E opts n c2 = Inr c3"
      by (cases "decorate E opts n c2") simp_all
    with rest2 show False by (auto simp: thenP_Resolved)
  qed
qed

lemma cloneStep_passed_not_null:
  assumes "filter_fn opts = Some f" and "f n"
  shows "cloneStep rec E opts n False s = cloneStep rec E opts n True (invoke E (FilterCall n) s)"
  using assms by (simp add: cloneStep_def)

lemma cloneStep_excluded:
  assumes "filter_fn opts = Some f" and "\<not> f n"
  shows "cloneStep rec E opts n False s = Resolved None (invoke E (FilterCall n) s)"
  using assms by (simp add: cloneStep_def)

lemma cloneNode_child_null_iff:
  assumes "filter_fn opts = Some f"
    and "cloneNode fuel E opts n False s = Resolved r s'"
  shows "r = None \<longleftrightarrow> \<not> f n"
proof (cases fuel)
  case 0
  with assms show ?thesis by simp
next
  case (Suc k)
  show ?thesis
  proof (cases "f n")
    case False
    with assms Suc show ?thesis by (simp add: cloneStep_excluded)
  next
    case True
    with assms Suc have
      "cloneStep (cloneNode k E opts) E opts n True (invoke E (FilterCall n) s) = Resolved r s'"
      by (simp add: cloneStep_passed_not_null)
    with cloneStep_root_not_null [of "cloneNode k E opts" E opts n "invoke E (FilterCall n) s" s']
    have "r \<noteq> None" by auto
    with True show ?thesis by simp
  qed
qed

lemma cloneEach_filtered_length:
  assumes "filter_fn opts = Some f"
    and "cloneEach (cloneNode fuel E opts) cs clonedNode s = Resolved out s'"
    and "isSupportedElement clonedNode"
  shows "length (nodeChildren out) = length (nodeChildren clonedNode) + length (filter f cs)"
  using assms(2,3)
proof (induction cs arbitrary: clonedNode s)
  case Nil
  then show ?case by simp
next
  case (Cons child rest)
  from Cons.prems(1) obtain r s1 where
    first: "cloneNode fuel E opts child False s = Resolved r s1"
    and tail: "cloneEach (cloneNode fuel E opts) rest
                 (case r of None \<Rightarrow> clonedNode | Some c \<Rightarrow> appendChild c clonedNode) s1 =
               Resolved out s'"
    by (auto simp: thenP_Resolved)
  let ?next = "case r of None \<Rightarrow> clonedNode | Some c \<Rightarrow> appendChild c clonedNode"
  from Cons.prems(2) have el: "isSupportedElement ?next"
    by (cases r) (simp_all add: isSupportedElement_appendChild)
  note ih = Cons.IH [OF tail el]
  from cloneNode_child_null_iff [OF assms(1) first] have null: "r = None \<longleftrightarrow> \<not> f child" .
  show ?case
  proof (cases r)
    case None
    with null ih show ?thesis by simp
  next
    case (Some c)
    with null ih Cons.prems(2) show ?thesis by (simp add: nodeChildren_appendChild)
  qed
qed

lemma decorate_ignores_filter:
  "decorate E (opts\<lparr>filter_fn := flt\<rparr>) nativeNode clonedNode =
   decorate E opts nativeNode clonedNode"
  by (simp add: decorate_def Let_def)

lemma cloneStep_root_ignores_filter:
  "cloneStep rec E opts n True s = cloneStep rec E (opts\<lparr>filter_fn := flt\<rparr>) n True s"
  by (simp add: cloneStep_def decorate_ignores_filter cong: option.case_cong)

text \<open>
  Claim C6. A call of \<open>cloneNode\<close> on a root does not evaluate the filter on its node:
  its outcome, result and log of calls alike, is that of the same step with any other
  filter, or none, in the place of the caller's, the recursive calls being as they are;
  and it never resolves to \<open>null\<close>. On a node that is not a root and that the filter
  accepts, it does what the call on a root does after the one evaluation of the filter on
  the node. On a node that is not a root and that the filter rejects, it
  resolves to \<open>null\<close> having done nothing but evaluate the filter: nothing of the subtree
  is cloned. The fold over the children appends one child for each child that the filter
  accepts, and none for the others.
\<close>

theorem cloneNode_filter:
  "(\<forall>flt. cloneNode (Suc fuel) E opts n True s =
      cloneStep (cloneNode fuel E opts) E (opts\<lparr>filter_fn := flt\<rparr>) n True s) \<and>
   (\<forall>s'. cloneNode fuel E opts n True s \<noteq> Resolved None s') \<and>
   (\<forall>f. filter_fn opts = Some f \<and> f n \<longrightarrow>
      cloneNode (Suc fuel) E opts n False s =
        cloneNode (Suc fuel) E opts n True (invoke E (FilterCall n) s)) \<and>
   (\<forall>f. filter_fn opts = Some f \<and> \<not> f n \<longrightarrow>
      cloneNode (Suc fuel) E opts n False s = Resolved None (invoke E (FilterCall n) s)) \<and>
   (\<forall>f cs clonedNode out s'.
      filter_fn opts = Some f \<and> isSupportedElement clonedNode \<and>
      cloneEach (cloneNode fuel E opts) cs clonedNode s = Resolved out s' \<longrightarrow>
        length (nodeChildren out) = length (nodeChildren clonedNode) + length (filter f cs))"
proof (intro conjI allI impI)
  fix flt
  show "cloneNode (Suc fuel) E opts n True s =
      cloneStep (cloneNode fuel E opts) E (opts\<lparr>filter_fn := flt\<rparr>) n True s"
    using cloneStep_root_ignores_filter [of "cloneNode fuel E opts" E opts n s flt] by simp
next
  fix s'
  show "cloneNode fuel E opts n True s \<noteq> Resolved None s'"
    by (cases fuel) (simp_all add: cloneStep_root_not_null)
next
  fix f assume "filter_fn opts = Some f \<and> f n"
  then show "cloneNode (Suc fuel) E opts n False s =
        cloneNode (Suc fuel) E opts n True (invoke E (FilterCall n) s)"
    by (simp add: cloneStep_passed_not_null)
next
  fix f assume "filter_fn opts = Some f \<and> \<not> f n"
  then show "cloneNode (Suc fuel) E opts n False s = Resolved None (invoke E (FilterCall n) s)"
    by (simp add: cloneStep_excluded)
next
  fix f cs clonedNode out s'
  assume a: "filter_fn opts = Some f \<and> isSupportedElement clonedNode \<and>
      cloneEach (cloneNode fuel E opts) cs clonedNode s = Resolved out s'"
  then have 1: "filter_fn opts = Some f" and 2: "isSupportedElement clonedNode"
    and 3: "cloneEach (cloneNode fuel E opts) cs clonedNode s = Resolved out s'"
    by simp_all
  from cloneEach_filtered_length [OF 1 3 2]
  show "length (nodeChildren out) = length (nodeChildren clonedNode) + length (filter f cs)" .
qed

lemma spanBox_children_run:
  "cloneEach (cloneNode 1 (demoEnv spanBox) hideSpans) [innerSpan, italic]
     (shallowClone spanBox) emptyState =
   Resolved (plainElement ''span'' [] [] [italic])
     \<lparr>clock = 2, calls = [FilterCall innerSpan, FilterCall italic]\<rparr>"
  by (simp add: clone_defs spanBox_def innerSpan_def italic_def hideSpans_def demoEnv_def
      plainElement_def emptyProps_def emptyState_def invoke_def Let_def)

lemma spanBox_root_run:
  "cloneNode (Suc (Suc 0)) (demoEnv spanBox) hideSpans spanBox True emptyState =
   Resolved (Some (plainElement ''span'' [] [] [italic]))
     \<lparr>clock = 2, calls = [FilterCall innerSpan, FilterCall italic]\<rparr>"
  by (simp add: clone_defs spanBox_def innerSpan_def italic_def hideSpans_def demoEnv_def
      plainElement_def emptyProps_def emptyState_def invoke_def Let_def)

text \<open>
  Claim C6 with a filter that rejects \<open>span\<close> elements, at a root that is a \<open>span\<close>
  with a \<open>span\<close> child and another child.
\<close>

theorem cloneNode_filter_witness:
  "filter_fn hideSpans = Some (\<lambda>n. nodeTag n \<noteq> ''span'') \<and>
   nodeTag italic \<noteq> ''span'' \<and> \<not> nodeTag innerSpan \<noteq> ''span'' \<and>
   \<not> nodeTag spanBox \<noteq> ''span'' \<and>
   cloneNode (Suc (Suc 0)) (demoEnv spanBox) hideSpans spanBox True emptyState =
     Resolved (Some (plainElement ''span'' [] [] [italic]))
       \<lparr>clock = 2, calls = [FilterCall innerSpan, FilterCall italic]\<rparr> \<and>
   cloneStep (cloneNode (Suc 0) (demoEnv spanBox) hideSpans) (demoEnv spanBox)
       (hideSpans\<lparr>filter_fn := None\<rparr>) spanBox True emptyState =
     Resolved (Some (plainElement ''span'' [] [] [italic]))
       \<lparr>clock = 2, calls = [FilterCall innerSpan, FilterCall italic]\<rparr> \<and>
   (\<forall>s'. cloneNode (Suc (Suc 0)) (demoEnv spanBox) hideSpans spanBox True emptyState \<noteq>
      Resolved None s') \<and>
   cloneNode (Suc 0) (demoEnv spanBox) hideSpans italic False emptyState =
     cloneNode (Suc 0) (demoEnv spanBox) hideSpans italic True
       (invoke (demoEnv spanBox) (FilterCall italic) emptyState) \<and>
   cloneNode (Suc 0) (demoEnv spanBox) hideSpans innerSpan False emptyState =
     Resolved None (invoke (demoEnv spanBox) (FilterCall innerSpan) emptyState) \<and>
   isSupportedElement (shallowClone spanBox) \<and>
   cloneEach (cloneNode 1 (demoEnv spanBox) hideSpans) [innerSpan, italic]
     (shallowClone spanBox) emptyState =
   Resolved (plainElement ''span'' [] [] [italic])
     \<lparr>clock = 2, calls = [FilterCall innerSpan, FilterCall italic]\<rparr> \<and>
   length (nodeChildren (plainElement ''span'' [] [] [italic])) =
     length (nodeChildren (shallowClone spanBox)) +
     length (filter (\<lambda>n. nodeTag n \<noteq> ''span'') [innerSpan, italic])"
proof -
  let ?E = "demoEnv spanBox"
  let ?f = "\<lambda>n. nodeTag n \<noteq> ''span''"
  let ?done = "Resolved (Some (plainElement ''span'' [] [] [italic]))
       \<lparr>clock = 2, calls = [FilterCall innerSpan, FilterCall italic]\<rparr>"
  have h1: "filter_fn hideSpans = Some ?f" by (simp add: hideSpans_def)
  have h2: "nodeTag italic \<noteq> ''span''" by (simp add: italic_def plainElement_def)
  have h3: "\<not> nodeTag innerSpan \<noteq> ''span''" by (simp add: innerSpan_def plainElement_def)
  have h3': "\<not> nodeTag spanBox \<noteq> ''span''" by (simp add: spanBox_def plainElement_def)
  have h4: "isSupportedElement (shallowClone spanBox)"
    by (simp add: spanBox_def plainElement_def)
  note h5 = spanBox_children_run
  note h6 = spanBox_root_run
  from cloneNode_filter [of "Suc 0" ?E hideSpans spanBox emptyState]
  have "cloneNode (Suc (Suc 0)) ?E hideSpans spanBox True emptyState =
      cloneStep (cloneNode (Suc 0) ?E hideSpans) ?E (hideSpans\<lparr>filter_fn := None\<rparr>)
        spanBox True emptyState"
    by blast
  with h6 have c0: "cloneStep (cloneNode (Suc 0) ?E hideSpans) ?E
      (hideSpans\<lparr>filter_fn := None\<rparr>) spanBox True emptyState = ?done"
    by simp
  from cloneNode_filter [of "Suc (Suc 0)" ?E hideSpans spanBox emptyState]
  have c3: "\<forall>s'. cloneNode (Suc (Suc 0)) ?E hideSpans spanBox True emptyState \<noteq>
      Resolved None s'"
    by blast
  from cloneNode_filter [of 0 ?E hideSpans italic emptyState] h1 h2
  have c1: "cloneNode (Suc 0) ?E hideSpans italic False emptyState =
     cloneNode (Suc 0) ?E hideSpans italic True (invoke ?E (FilterCall italic) emptyState)"
    by blast
  from cloneNode_filter [of 0 ?E hideSpans innerSpan emptyState] h1 h3
  have c2: "cloneNode (Suc 0) ?E hideSpans innerSpan False emptyState =
     Resolved None (invoke ?E (FilterCall innerSpan) emptyState)"
    by blast
  from cloneNode_filter [of 1 ?E hideSpans innerSpan emptyState] h1 h4 h5
  have c4: "length (nodeChildren (plainElement ''span'' [] [] [italic])) =
     length (nodeChildren (shallowClone spanBox)) + length (filter ?f [innerSpan, italic])"
    by blast
  from h1 h2 h3 h3' h4 h5 h6 c0 c1 c2 c3 c4 show ?thesis by blast
qed
section \<open>SVG symbols\<close>

lemma update_fresh:
  "k \<notin> fst ` set al \<Longrightarrow> AList.update k v al = al @ [(k, v)]"
  by (induction al) auto

lemma not_truthy_fresh:
  assumes "\<not> truthyProperty tbl ref" and "\<forall>v \<in> snd ` set tbl. v \<noteq> None"
  shows "ref \<notin> fst ` set tbl"
proof
  assume "ref \<in> fst ` set tbl"
  then obtain v where "map_of tbl ref = Some v"
    by (metis map_of_eq_None_iff not_None_eq)
  moreover from this have "v \<in> snd ` set tbl"
    by (metis map_of_SomeD image_eqI snd_conv)
  ultimately show False using assms by (simp add: truthyProperty_def)
qed

lemma collectDefs_runs:
  assumes "collectDefs rec E clone uses tbl s = Resolved tbl' s'"
    and "\<forall>d st st'. rec d True st \<noteq> Resolved None st'"
    and "\<forall>v \<in> snd ` set tbl. v \<noteq> None"
    and "distinct (map fst tbl)"
  shows "\<exists>runs. tbl' = tbl @ map runEntry runs \<and>
           definitionRuns rec E s runs s' \<and>
           distinct (map fst tbl') \<and>
           (\<forall>ref \<in> set (map fst runs). \<exists>u \<in> set uses. namesMissingDefinition E clone u ref)"
  using assms(1,3,4)
proof (induction uses arbitrary: tbl s)
  case Nil
  then have "tbl' = tbl @ map runEntry [] \<and> definitionRuns rec E s [] s' \<and>
      distinct (map fst tbl') \<and>
      (\<forall>ref \<in> set (map fst ([] :: definitionRun list)).
         \<exists>u \<in> set []. namesMissingDefinition E clone u ref)"
    by simp
  then show ?case by (rule exI [of _ "[]"])
next
  case (Cons use uses)
  have skip: ?case if "collectDefs rec E clone uses tbl s = Resolved tbl' s'"
  proof -
    from Cons.IH [OF that Cons.prems(2,3)] obtain runs where
      R: "tbl' = tbl @ map runEntry runs \<and> definitionRuns rec E s runs s' \<and>
       distinct (map fst tbl') \<and>
       (\<forall>ref \<in> set (map fst runs). \<exists>u \<in> set uses. namesMissingDefinition E clone u ref)" ..
    from R have d: "\<forall>ref \<in> set (map fst runs).
        \<exists>u \<in> set uses. namesMissingDefinition E clone u ref"
      by (elim conjE)
    have "\<forall>ref \<in> set (map fst runs).
          \<exists>u \<in> set (use # uses). namesMissingDefinition E clone u ref"
    proof
      fix ref assume "ref \<in> set (map fst runs)"
      with d obtain u where "u \<in> set uses" "namesMissingDefinition E clone u ref" by blast
      then show "\<exists>u \<in> set (use # uses). namesMissingDefinition E clone u ref" by auto
    qed
    with R have "tbl' = tbl @ map runEntry runs \<and> definitionRuns rec E s runs s' \<and>
       distinct (map fst tbl') \<and>
       (\<forall>ref \<in> set (map fst runs).
          \<exists>u \<in> set (use # uses). namesMissingDefinition E clone u ref)"
      by (elim conjE) (intro conjI)
    then show ?thesis by (rule exI [of _ runs])
  qed
  show ?case
  proof (cases "\<exists>ref dfn. namesMissingDefinition E clone use ref \<and>
                  documentQuerySelector E ref = Inr (Some dfn) \<and> \<not> truthyProperty tbl ref")
    case False
    with Cons.prems(1) have "collectDefs rec E clone uses tbl s = Resolved tbl' s'"
      by (auto simp: namesMissingDefinition_def split: option.splits sum.splits if_splits)
    then show ?thesis by (rule skip)
  next
    case True
    then obtain ref dfn where
      nm: "namesMissingDefinition E clone use ref"
      and dfn: "documentQuerySelector E ref = Inr (Some dfn)"
      and nt: "\<not> truthyProperty tbl ref"
      by blast
    from nm have attr: "getAttribute use ''xlink:href'' = Some ref" "ref \<noteq> []"
      "querySelector E clone ref = Inr None"
      by (simp_all add: namesMissingDefinition_def)
    from Cons.prems(1) attr dfn nt obtain cl s1 where
      call: "rec dfn True s = Resolved cl s1"
      and rest: "collectDefs rec E clone uses (AList.update ref cl tbl) s1 = Resolved tbl' s'"
      by (auto simp: thenP_Resolved)
    from call assms(2) obtain c where cl: "cl = Some c" by (cases cl) auto
    from not_truthy_fresh [OF nt Cons.prems(2)] have fresh: "ref \<notin> fst ` set tbl" .
    then have upd: "AList.update ref cl tbl = tbl @ [(ref, Some c)]"
      by (simp add: update_fresh cl)
    have nn: "\<forall>v \<in> snd ` set (AList.update ref cl tbl). v \<noteq> None"
      using Cons.prems(2) by (auto simp: upd)
    have di: "distinct (map fst (AList.update ref cl tbl))"
      using Cons.prems(3) by (rule distinct_update)
    from Cons.IH [OF rest nn di] obtain runs where
      runs: "tbl' = AList.update ref cl tbl @ map runEntry runs"
        "definitionRuns rec E s1 runs s'" "distinct (map fst tbl')"
        "\<forall>r \<in> set (map fst runs). \<exists>u \<in> set uses. namesMissingDefinition E clone u r"
      by blast
    let ?runs = "(ref, c, s, s1) # runs"
    have 1: "tbl' = tbl @ map runEntry ?runs"
      using runs(1) by (simp add: upd runEntry_def)
    have 2: "definitionRuns rec E s ?runs s'"
      using runs(2) call dfn by (simp add: cl)
    have 3: "\<forall>r \<in> set (map fst ?runs). \<exists>u \<in> set (use # uses). namesMissingDefinition E clone u r"
      using runs(4) nm by auto
    from 1 2 3 runs(3) have "tbl' = tbl @ map runEntry ?runs \<and>
        definitionRuns rec E s ?runs s' \<and> distinct (map fst tbl') \<and>
        (\<forall>r \<in> set (map fst ?runs). \<exists>u \<in> set (use # uses). namesMissingDefinition E clone u r)"
      by blast
    then show ?thesis by (rule exI [of _ "(ref, c, s, s1) # runs"])
  qed
qed

lemma mset_objectValues: "mset (objectValues tbl) = mset (map snd tbl)"
proof -
  have "mset (sort_key (\<lambda>kv. decimal (fst kv)) (filter (\<lambda>kv. isArrayIndex (fst kv)) tbl) @
              filter (\<lambda>kv. \<not> isArrayIndex (fst kv)) tbl) = mset tbl"
    by simp
  then have "image_mset snd
      (mset (sort_key (\<lambda>kv. decimal (fst kv)) (filter (\<lambda>kv. isArrayIndex (fst kv)) tbl) @
              filter (\<lambda>kv. \<not> isArrayIndex (fst kv)) tbl)) = image_mset snd (mset tbl)"
    by (rule arg_cong)
  then show ?thesis by (simp only: objectValues_def mset_map)
qed

lemma nonNull_Some: "nonNull xs = Some ns \<Longrightarrow> xs = map Some ns"
proof (induction xs arbitrary: ns)
  case Nil
  then show ?case by simp
next
  case (Cons x xs)
  then show ?case by (cases x) auto
qed

lemma mset_map_Some: "mset (map Some xs) = mset (map Some ys) \<Longrightarrow> mset xs = mset ys"
proof -
  assume "mset (map Some xs) = mset (map Some ys)"
  then have "image_mset the (mset (map Some xs)) = image_mset the (mset (map Some ys))"
    by (rule arg_cong)
  then show ?thesis by (simp add: image_mset.compositionality comp_def)
qed

lemma collectDefs_harmless:
  "\<forall>u \<in> set uses. namesNothingMissing E clone u \<Longrightarrow>
   collectDefs rec E clone uses tbl s = Resolved tbl s"
proof (induction uses)
  case Nil
  then show ?case by simp
next
  case (Cons use uses)
  from Cons.prems have u: "namesNothingMissing E clone use"
    and rest: "\<forall>u \<in> set uses. namesNothingMissing E clone u"
    by simp_all
  from u have "collectDefs rec E clone (use # uses) tbl s = collectDefs rec E clone uses tbl s"
    by (auto simp: namesNothingMissing_def split: option.splits sum.splits)
  with Cons.IH [OF rest] show ?case by simp
qed

text \<open>
  Claim C10, as amended. For a \<open>use\<close> element without an \<open>xlink:href\<close> attribute, whatever its
  \<open>href\<close>, the loop collects nothing and goes on with the table as it was. If
  for every \<open>use\<close> element of the clone both lookups return and its \<open>xlink:href\<close> names
  no definition that the document has and the clone lacks, \<open>ensureSVGSymbols\<close> resolves to
  the clone, unchanged, in the same state.
\<close>

theorem ensureSVGSymbols_xlink_only:
  "(getAttribute use ''xlink:href'' = None \<longrightarrow>
      collectDefs rec E clone (use # uses) tbl s = collectDefs rec E clone uses tbl s) \<and>
   ((\<forall>u \<in> set (querySelectorAll E clone ''use''). namesNothingMissing E clone u) \<longrightarrow>
      ensureSVGSymbols rec E clone s = Resolved clone s)"
proof (intro conjI impI)
  assume "getAttribute use ''xlink:href'' = None"
  then show "collectDefs rec E clone (use # uses) tbl s = collectDefs rec E clone uses tbl s"
    by simp
next
  assume "\<forall>u \<in> set (querySelectorAll E clone ''use''). namesNothingMissing E clone u"
  then have "collectDefs rec E clone (querySelectorAll E clone ''use'') [] s = Resolved [] s"
    by (rule collectDefs_harmless)
  then show "ensureSVGSymbols rec E clone s = Resolved clone s"
    by (simp add: ensureSVGSymbols_def objectValues_def Let_def)
qed

text \<open>
  Claim C4. When \<open>ensureSVGSymbols\<close> succeeds (with a cloner that gives no \<open>null\<close> for a
  root, as \<open>cloneNode\<close> is), the clones of definitions it has made form a sequential
  schedule with pairwise distinct references, each named through \<open>xlink:href\<close> by a
  \<open>use\<close> element of the clone, found in the document and absent from the clone: each
  definition is cloned at most once. If there is none the clone is returned as it is;
  otherwise exactly one element is appended to the clone, an \<open>svg\<close> element with the
  style \<open>position: absolute; width: 0; height: 0; overflow: hidden; display: none\<close> whose
  only child is a \<open>defs\<close> element holding all the cloned definitions.
\<close>

theorem ensureSVGSymbols_dedup:
  assumes nonnull: "\<forall>d st st'. rec d True st \<noteq> Resolved None st'"
    and el: "isSupportedElement clone"
    and run: "ensureSVGSymbols rec E clone s = Resolved out s'"
  shows "\<exists>runs. definitionRuns rec E s runs s' \<and> distinct (map fst runs) \<and>
           (\<forall>ref \<in> set (map fst runs).
              \<exists>u \<in> set (querySelectorAll E clone ''use''). namesMissingDefinition E clone u ref) \<and>
           (if runs = [] then out = clone
            else \<exists>ns. mset ns = mset (map (\<lambda>r. fst (snd r)) runs) \<and>
                   nodeChildren out = nodeChildren clone @ [svgContainer ns] \<and>
                   nodeTag (svgContainer ns) = ''svg'' \<and>
                   nodeStyle (svgContainer ns) =
                     Some [(''position'', ''absolute'', []), (''width'', ''0'', []),
                           (''height'', ''0'', []), (''overflow'', ''hidden'', []),
                           (''display'', ''none'', [])] \<and>
                   nodeChildren (svgContainer ns) = [defsElement ns] \<and>
                   nodeTag (defsElement ns) = ''defs'' \<and>
                   nodeChildren (defsElement ns) = ns)"
proof (cases "querySelectorAll E clone ''use'' = []")
  case True
  with run have "out = clone" "s' = s" by (simp_all add: ensureSVGSymbols_def)
  then have "definitionRuns rec E s [] s' \<and> distinct (map fst ([] :: definitionRun list)) \<and>
      (\<forall>ref \<in> set (map fst ([] :: definitionRun list)).
         \<exists>u \<in> set (querySelectorAll E clone ''use''). namesMissingDefinition E clone u ref) \<and>
      out = clone"
    by simp
  then show ?thesis by (intro exI [of _ "[]"]) simp
next
  case False
  let ?uses = "querySelectorAll E clone ''use''"
  from run False obtain tbl s1 where
    loop: "collectDefs rec E clone ?uses [] s = Resolved tbl s1"
    and fin: "(if objectValues tbl \<noteq> [] then
                (case nonNull (objectValues tbl) of
                   None \<Rightarrow> Rejected TypeError s1
                 | Some ns \<Rightarrow> Resolved (appendChild (svgContainer ns) clone) s1)
              else Resolved clone s1) = Resolved out s'"
    by (auto simp: ensureSVGSymbols_def Let_def thenP_Resolved)
  from collectDefs_runs [OF loop nonnull] obtain runs where
    tbl: "tbl = map runEntry runs"
    and seq: "definitionRuns rec E s runs s1"
    and dist: "distinct (map fst tbl)"
    and named: "\<forall>ref \<in> set (map fst runs).
                  \<exists>u \<in> set ?uses. namesMissingDefinition E clone u ref"
    by auto
  have keys: "map fst tbl = map fst runs" by (simp add: tbl runEntry_def comp_def)
  have vals: "map snd tbl = map Some (map (\<lambda>r. fst (snd r)) runs)"
    by (simp add: tbl runEntry_def comp_def)
  have empty: "objectValues tbl = [] \<longleftrightarrow> runs = []"
  proof -
    have "objectValues tbl = [] \<longleftrightarrow> mset (objectValues tbl) = {#}" by simp
    also have "\<dots> \<longleftrightarrow> runs = []" by (simp only: mset_objectValues) (simp add: tbl)
    finally show ?thesis .
  qed
  show ?thesis
  proof (cases "runs = []")
    case True
    with fin empty have "out = clone" "s' = s1" by simp_all
    with seq dist named keys True have
      "definitionRuns rec E s runs s' \<and> distinct (map fst runs) \<and>
       (\<forall>ref \<in> set (map fst runs).
          \<exists>u \<in> set ?uses. namesMissingDefinition E clone u ref) \<and> out = clone"
      by simp
    with True show ?thesis by (intro exI [of _ runs]) simp
  next
    case nonempty: False
    with fin empty obtain ns where
      ns: "nonNull (objectValues tbl) = Some ns"
      and out: "out = appendChild (svgContainer ns) clone" and s': "s' = s1"
      by (auto split: option.splits)
    from nonNull_Some [OF ns] have "mset (map Some ns) = mset (objectValues tbl)" by simp
    also have "\<dots> = mset (map Some (map (\<lambda>r. fst (snd r)) runs))"
      by (simp only: mset_objectValues vals)
    finally have perm: "mset ns = mset (map (\<lambda>r. fst (snd r)) runs)"
      by (rule mset_map_Some)
    have kids: "nodeChildren out = nodeChildren clone @ [svgContainer ns]"
      using el by (simp add: out nodeChildren_appendChild)
    have shape: "nodeTag (svgContainer ns) = ''svg'' \<and>
                   nodeStyle (svgContainer ns) =
                     Some [(''position'', ''absolute'', []), (''width'', ''0'', []),
                           (''height'', ''0'', []), (''overflow'', ''hidden'', []),
                           (''display'', ''none'', [])] \<and>
                   nodeChildren (svgContainer ns) = [defsElement ns] \<and>
                   nodeTag (defsElement ns) = ''defs'' \<and>
                   nodeChildren (defsElement ns) = ns"
      by (simp add: svgContainer_def defsElement_def)
    from perm kids shape have
      "\<exists>ns. mset ns = mset (map (\<lambda>r. fst (snd r)) runs) \<and>
                   nodeChildren out = nodeChildren clone @ [svgContainer ns] \<and>
                   nodeTag (svgContainer ns) = ''svg'' \<and>
                   nodeStyle (svgContainer ns) =
                     Some [(''position'', ''absolute'', []), (''width'', ''0'', []),
                           (''height'', ''0'', []), (''overflow'', ''hidden'', []),
                           (''display'', ''none'', [])] \<and>
                   nodeChildren (svgContainer ns) = [defsElement ns] \<and>
                   nodeTag (defsElement ns) = ''defs'' \<and>
                   nodeChildren (defsElement ns) = ns"
      by (intro exI [of _ ns]) simp
    with seq dist named keys nonempty s' show ?thesis
      by (intro exI [of _ runs]) simp
  qed
qed

lemma twoUses_run:
  "ensureSVGSymbols (cloneNode 1 (demoEnv iconDocument) noOptions) (demoEnv iconDocument)
     twoUses emptyState =
   Resolved (plainElement ''div'' [] [] [useIcon, useIcon, svgContainer [iconSymbol]]) emptyState"
  by (simp add: clone_defs twoUses_def useIcon_def iconSymbol_def iconDocument_def
      demoEnv_def demoQuerySelector_def noOptions_def plainElement_def emptyProps_def
      emptyState_def getAttribute_def truthyProperty_def objectPrototypeKeys_def
      objectValues_def isArrayIndex_def isDigit_def Let_def)

text \<open>
  Claim C4 at a clone with two \<open>use\<close> elements that refer to the same symbol.
\<close>

theorem ensureSVGSymbols_dedup_witness:
  "(\<forall>d st st'. cloneNode 1 (demoEnv iconDocument) noOptions d True st \<noteq> Resolved None st') \<and>
   isSupportedElement twoUses \<and>
   querySelectorAll (demoEnv iconDocument) twoUses ''use'' = [useIcon, useIcon] \<and>
   ensureSVGSymbols (cloneNode 1 (demoEnv iconDocument) noOptions) (demoEnv iconDocument)
     twoUses emptyState =
   Resolved (plainElement ''div'' [] [] [useIcon, useIcon, svgContainer [iconSymbol]]) emptyState \<and>
   (\<exists>runs :: definitionRun list.
      length runs = 1 \<and> map (\<lambda>r. fst (snd r)) runs = [iconSymbol] \<and>
      definitionRuns (cloneNode 1 (demoEnv iconDocument) noOptions) (demoEnv iconDocument)
        emptyState runs emptyState)"
proof -
  let ?E = "demoEnv iconDocument"
  let ?rec = "cloneNode 1 ?E noOptions"
  let ?out = "plainElement ''div'' [] [] [useIcon, useIcon, svgContainer [iconSymbol]]"
  have h1: "\<forall>d st st'. ?rec d True st \<noteq> Resolved None st'"
    by (simp add: cloneStep_root_not_null)
  have h2: "isSupportedElement twoUses" by (simp add: twoUses_def plainElement_def)
  have uses: "querySelectorAll ?E twoUses ''use'' = [useIcon, useIcon]"
    by (simp add: demoEnv_def twoUses_def plainElement_def useIcon_def)
  note h3 = twoUses_run
  from ensureSVGSymbols_dedup [OF h1 h2 h3] obtain runs where
    R: "definitionRuns ?rec ?E emptyState runs emptyState \<and> distinct (map fst runs) \<and>
      (\<forall>ref \<in> set (map fst runs).
         \<exists>u \<in> set (querySelectorAll ?E twoUses ''use'').
           namesMissingDefinition ?E twoUses u ref) \<and>
      (if runs = [] then ?out = twoUses
       else \<exists>ns. mset ns = mset (map (\<lambda>r. fst (snd r)) runs) \<and>
              nodeChildren ?out = nodeChildren twoUses @ [svgContainer ns] \<and>
              nodeTag (svgContainer ns) = ''svg'' \<and>
              nodeStyle (svgContainer ns) =
                Some [(''position'', ''absolute'', []), (''width'', ''0'', []),
                      (''height'', ''0'', []), (''overflow'', ''hidden'', []),
                      (''display'', ''none'', [])] \<and>
              nodeChildren (svgContainer ns) = [defsElement ns] \<and>
              nodeTag (defsElement ns) = ''defs'' \<and>
              nodeChildren (defsElement ns) = ns)" ..
  from R have seq: "definitionRuns ?rec ?E emptyState runs emptyState" by (elim conjE)
  have differ: "?out \<noteq> twoUses" by (simp add: twoUses_def plainElement_def)
  from R have "if runs = [] then ?out = twoUses
       else \<exists>ns. mset ns = mset (map (\<lambda>r. fst (snd r)) runs) \<and>
              nodeChildren ?out = nodeChildren twoUses @ [svgContainer ns] \<and>
              nodeTag (svgContainer ns) = ''svg'' \<and>
              nodeStyle (svgContainer ns) =
                Some [(''position'', ''absolute'', []), (''width'', ''0'', []),
                      (''height'', ''0'', []), (''overflow'', ''hidden'', []),
                      (''display'', ''none'', [])] \<and>
              nodeChildren (svgContainer ns) = [defsElement ns] \<and>
              nodeTag (defsElement ns) = ''defs'' \<and>
              nodeChildren (defsElement ns) = ns"
    by (elim conjE)
  with differ obtain ns where
    perm: "mset ns = mset (map (\<lambda>r. fst (snd r)) runs)"
    and kids: "nodeChildren ?out = nodeChildren twoUses @ [svgContainer ns]"
    by (cases "runs = []") auto
  from kids have "svgContainer ns = svgContainer [iconSymbol]"
    by (simp add: twoUses_def plainElement_def)
  then have ns: "ns = [iconSymbol]" by (simp add: svgContainer_def defsElement_def)
  from perm ns have one: "mset (map (\<lambda>r. fst (snd r)) runs) = {#iconSymbol#}" by simp
  then have "map (\<lambda>r. fst (snd r)) runs = [iconSymbol]"
    by (metis mset_single_iff_right)
  moreover from this have "length runs = 1"
    by (metis length_map length_Cons list.size(3) One_nat_def)
  ultimately have "length runs = 1 \<and> map (\<lambda>r. fst (snd r)) runs = [iconSymbol] \<and>
      definitionRuns ?rec ?E emptyState runs emptyState"
    using seq by simp
  then have "\<exists>runs :: definitionRun list.
      length runs = 1 \<and> map (\<lambda>r. fst (snd r)) runs = [iconSymbol] \<and>
      definitionRuns ?rec ?E emptyState runs emptyState"
    by (rule exI [of _ runs])
  with h1 h2 uses h3 show ?thesis by blast
qed

lemma modernUses_uses:
  "querySelectorAll (demoEnv iconDocument) modernUses ''use'' = [useIconModern]"
  by (simp add: demoEnv_def modernUses_def plainElement_def useIconModern_def)

text \<open>
  Claim C10, as amended, at a clone whose only \<open>use\<close> element refers to a definition of the document
  through \<open>href\<close>.
\<close>

theorem ensureSVGSymbols_xlink_only_witness:
  "getAttribute useIconModern ''xlink:href'' = None \<and>
   getAttribute useIconModern ''href'' = Some ''#icon'' \<and>
   documentQuerySelector (demoEnv iconDocument) ''#icon'' = Inr (Some iconSymbol) \<and>
   collectDefs (cloneNode 1 (demoEnv iconDocument) noOptions) (demoEnv iconDocument) modernUses
     [useIconModern] [] emptyState =
   collectDefs (cloneNode 1 (demoEnv iconDocument) noOptions) (demoEnv iconDocument) modernUses
     [] [] emptyState \<and>
   querySelectorAll (demoEnv iconDocument) modernUses ''use'' = [useIconModern] \<and>
   namesNothingMissing (demoEnv iconDocument) modernUses useIconModern \<and>
   ensureSVGSymbols (cloneNode 1 (demoEnv iconDocument) noOptions) (demoEnv iconDocument)
     modernUses emptyState = Resolved modernUses emptyState"
proof -
  let ?E = "demoEnv iconDocument"
  let ?rec = "cloneNode 1 ?E noOptions"
  have h1: "getAttribute useIconModern ''xlink:href'' = None"
    by (simp add: useIconModern_def getAttribute_def)
  have h1': "getAttribute useIconModern ''href'' = Some ''#icon''"
    by (simp add: useIconModern_def getAttribute_def)
  have doc: "documentQuerySelector ?E ''#icon'' = Inr (Some iconSymbol)"
    by (simp add: demoEnv_def demoQuerySelector_def iconDocument_def plainElement_def
        iconSymbol_def getAttribute_def)
  have h2: "\<forall>u \<in> set (querySelectorAll ?E modernUses ''use''). namesNothingMissing ?E modernUses u"
    by (simp add: modernUses_uses namesNothingMissing_def h1)
  from ensureSVGSymbols_xlink_only [of useIconModern ?rec ?E modernUses "[]" "[]" emptyState] h1
  have c1: "collectDefs ?rec ?E modernUses [useIconModern] [] emptyState =
      collectDefs ?rec ?E modernUses [] [] emptyState"
    by blast
  from ensureSVGSymbols_xlink_only [of useIconModern ?rec ?E modernUses "[]" "[]" emptyState] h2
  have c2: "ensureSVGSymbols ?rec ?E modernUses emptyState = Resolved modernUses emptyState"
    by blast
  have h3: "namesNothingMissing ?E modernUses useIconModern"
    by (simp add: namesNothingMissing_def h1)
  from h1 h1' doc modernUses_uses h3 c1 c2 show ?thesis by blast
qed

text \<open>
  Claim C10 as stated fails: the only \<open>use\<close> element of the clone refers to a sprite
  file, so its \<open>xlink:href\<close> names no definition of the document; the lookup with that
  value throws, and \<open>ensureSVGSymbols\<close> rejects where the claim has the clone returned.
\<close>

theorem ensureSVGSymbols_sprite_counterexample:
  "querySelectorAll (demoEnv iconDocument) spriteUses ''use'' = [useSprite] \<and>
   getAttribute useSprite ''xlink:href'' = Some ''/img/sprite.svg#icon'' \<and>
   documentQuerySelector (demoEnv iconDocument) ''/img/sprite.svg#icon'' = Inl SyntaxError \<and>
   \<not> namesMissingDefinition (demoEnv iconDocument) spriteUses useSprite ''/img/sprite.svg#icon'' \<and>
   ensureSVGSymbols (cloneNode 1 (demoEnv iconDocument) noOptions) (demoEnv iconDocument)
     spriteUses emptyState = Rejected SyntaxError emptyState"
  by (simp add: ensureSVGSymbols_def namesMissingDefinition_def spriteUses_def useSprite_def
      demoEnv_def demoQuerySelector_def plainElement_def getAttribute_def Let_def)
end
